theory Spec2Isabelle
  imports Complex_Main "HOL-Library.Sublist"
begin

section \<open>JavaScript numbers\<close>

text \<open>
  A JavaScript \<^verbatim>\<open>Number\<close> is modelled by its value: a real number, one of the two
  infinities, or NaN. The special values follow IEEE 754 (anything with NaN is NaN,
  \<open>x / 0\<close> is an infinity for \<open>x \<noteq> 0\<close>, \<open>0 / 0\<close>, \<open>\<infinity> / \<infinity>\<close>, \<open>\<infinity> - \<infinity>\<close> and
  \<open>0 * \<infinity>\<close> are NaN). The operators \<open>+\<close>, \<open>-\<close>, \<open>*\<close>, \<open>/\<close> of this type compute finite values
  exactly; the operators of the language, which round every result to binary64 and
  overflow to an infinity, are \<open>js_add\<close>, \<open>js_sub\<close>, \<open>js_mul\<close> and \<open>js_div\<close> below. The two
  zeros are one value (taken as \<open>+0\<close>).
\<close>

datatype jsnum = Fin real | PInf | NInf | NaN

fun isNaN :: "jsnum \<Rightarrow> bool" where
  "isNaN NaN = True"
| "isNaN _ = False"

fun isFinite :: "jsnum \<Rightarrow> bool" where
  "isFinite (Fin r) = True"
| "isFinite _ = False"

text \<open>Truthiness of a number: \<open>0\<close> and NaN are falsy.\<close>

fun truthy :: "jsnum \<Rightarrow> bool" where
  "truthy (Fin r) = (r \<noteq> 0)"
| "truthy NaN = False"
| "truthy _ = True"

instantiation jsnum :: "{uminus, plus, minus, times, inverse, abs, ord}"
begin

fun uminus_jsnum :: "jsnum \<Rightarrow> jsnum" where
  "uminus_jsnum (Fin r) = Fin (- r)"
| "uminus_jsnum PInf = NInf"
| "uminus_jsnum NInf = PInf"
| "uminus_jsnum NaN = NaN"

fun plus_jsnum :: "jsnum \<Rightarrow> jsnum \<Rightarrow> jsnum" where
  "plus_jsnum NaN _ = NaN"
| "plus_jsnum _ NaN = NaN"
| "plus_jsnum (Fin x) (Fin y) = Fin (x + y)"
| "plus_jsnum PInf NInf = NaN"
| "plus_jsnum NInf PInf = NaN"
| "plus_jsnum PInf _ = PInf"
| "plus_jsnum _ PInf = PInf"
| "plus_jsnum NInf _ = NInf"
| "plus_jsnum _ NInf = NInf"

definition minus_jsnum :: "jsnum \<Rightarrow> jsnum \<Rightarrow> jsnum" where
  "minus_jsnum x y = x + (- y)"

fun times_jsnum :: "jsnum \<Rightarrow> jsnum \<Rightarrow> jsnum" where
  "times_jsnum NaN _ = NaN"
| "times_jsnum _ NaN = NaN"
| "times_jsnum (Fin x) (Fin y) = Fin (x * y)"
| "times_jsnum PInf (Fin y) = (if y = 0 then NaN else if 0 < y then PInf else NInf)"
| "times_jsnum NInf (Fin y) = (if y = 0 then NaN else if 0 < y then NInf else PInf)"
| "times_jsnum (Fin x) PInf = (if x = 0 then NaN else if 0 < x then PInf else NInf)"
| "times_jsnum (Fin x) NInf = (if x = 0 then NaN else if 0 < x then NInf else PInf)"
| "times_jsnum PInf PInf = PInf"
| "times_jsnum PInf NInf = NInf"
| "times_jsnum NInf PInf = NInf"
| "times_jsnum NInf NInf = PInf"

fun divide_jsnum :: "jsnum \<Rightarrow> jsnum \<Rightarrow> jsnum" where
  "divide_jsnum NaN _ = NaN"
| "divide_jsnum _ NaN = NaN"
| "divide_jsnum (Fin x) (Fin y) =
     (if y = 0 then (if x = 0 then NaN else if 0 < x then PInf else NInf) else Fin (x / y))"
| "divide_jsnum (Fin x) PInf = Fin 0"
| "divide_jsnum (Fin x) NInf = Fin 0"
| "divide_jsnum PInf (Fin y) = (if 0 \<le> y then PInf else NInf)"
| "divide_jsnum NInf (Fin y) = (if 0 \<le> y then NInf else PInf)"
| "divide_jsnum _ _ = NaN"

definition inverse_jsnum :: "jsnum \<Rightarrow> jsnum" where
  "inverse_jsnum x = divide (Fin 1) x"

fun abs_jsnum :: "jsnum \<Rightarrow> jsnum" where
  "abs_jsnum (Fin r) = Fin \<bar>r\<bar>"
| "abs_jsnum PInf = PInf"
| "abs_jsnum NInf = PInf"
| "abs_jsnum NaN = NaN"

text \<open>Comparisons: every comparison with NaN is false.\<close>

fun less_eq_jsnum :: "jsnum \<Rightarrow> jsnum \<Rightarrow> bool" where
  "less_eq_jsnum NaN _ = False"
| "less_eq_jsnum _ NaN = False"
| "less_eq_jsnum (Fin x) (Fin y) = (x \<le> y)"
| "less_eq_jsnum NInf _ = True"
| "less_eq_jsnum _ PInf = True"
| "less_eq_jsnum _ _ = False"

fun less_jsnum :: "jsnum \<Rightarrow> jsnum \<Rightarrow> bool" where
  "less_jsnum NaN _ = False"
| "less_jsnum _ NaN = False"
| "less_jsnum (Fin x) (Fin y) = (x < y)"
| "less_jsnum PInf _ = False"
| "less_jsnum _ NInf = False"
| "less_jsnum _ _ = True"

instance ..

end

text \<open>The operators \<^verbatim>\<open>==\<close> and \<^verbatim>\<open>!=\<close> on numbers: NaN is equal to nothing.\<close>

definition js_eq :: "jsnum \<Rightarrow> jsnum \<Rightarrow> bool" where
  "js_eq x y = (\<not> isNaN x \<and> \<not> isNaN y \<and> x = y)"

definition js_ne :: "jsnum \<Rightarrow> jsnum \<Rightarrow> bool" where
  "js_ne x y = (\<not> js_eq x y)"

text \<open>The remainder operator \<^verbatim>\<open>%\<close>: the quotient is truncated towards zero, so the
  result has the sign of the dividend.\<close>

definition trunc :: "real \<Rightarrow> int" where
  "trunc r = (if 0 \<le> r then \<lfloor>r\<rfloor> else \<lceil>r\<rceil>)"

definition fmod :: "real \<Rightarrow> real \<Rightarrow> real" where
  "fmod x y = x - y * of_int (trunc (x / y))"

fun js_rem :: "jsnum \<Rightarrow> jsnum \<Rightarrow> jsnum" where
  "js_rem (Fin x) (Fin y) = (if y = 0 then NaN else Fin (fmod x y))"
| "js_rem (Fin x) PInf = Fin x"
| "js_rem (Fin x) NInf = Fin x"
| "js_rem _ _ = NaN"

subsection \<open>Rounding to binary64\<close>

text \<open>Rounding to the nearest integer, a tie to the even one.\<close>

definition round_half_even :: "real \<Rightarrow> int" where
  "round_half_even r =
     (let n = \<lfloor>r\<rfloor>; d = r - of_int n
      in if d < 1 / 2 then n else if 1 / 2 < d then n + 1 else if even n then n else n + 1)"

text \<open>
  A binary64 number is \<open>m \<sqdot> 2\<^sup>e\<close> with \<open>|m| < 2\<^sup>5\<^sup>3\<close> and \<open>-1074 \<le> e \<le> 971\<close>. The numbers
  near \<open>x\<close> are the multiples of \<open>quantum x\<close>, which is \<open>2\<^sup>k\<^sup>-\<^sup>5\<^sup>2\<close> for \<open>2\<^sup>k \<le> |x| < 2\<^sup>k\<^sup>+\<^sup>1\<close> and
  \<open>2\<^sup>-\<^sup>1\<^sup>0\<^sup>7\<^sup>4\<close> below \<open>2\<^sup>-\<^sup>1\<^sup>0\<^sup>2\<^sup>2\<close>. The result of an operation is the exact result rounded
  to the nearest of them, a tie to the one with the even \<open>m\<close>; a rounded value of
  magnitude \<open>2\<^sup>1\<^sup>0\<^sup>2\<^sup>4\<close> or more is an infinity.
\<close>

definition exponent64 :: "real \<Rightarrow> int" where
  "exponent64 x = max \<lfloor>log 2 \<bar>x\<bar>\<rfloor> (- 1022) - 52"

definition quantum :: "real \<Rightarrow> real" where
  "quantum x = 2 powr of_int (exponent64 x)"

definition nearest64 :: "real \<Rightarrow> real" where
  "nearest64 x = of_int (round_half_even (x / quantum x)) * quantum x"

definition round64 :: "real \<Rightarrow> jsnum" where
  "round64 x =
     (let r = nearest64 x
      in if 2 ^ 1024 \<le> r then PInf else if r \<le> - (2 ^ 1024) then NInf else Fin r)"

fun rounded :: "jsnum \<Rightarrow> jsnum" where
  "rounded (Fin r) = round64 r"
| "rounded x = x"

text \<open>The operators \<^verbatim>\<open>+\<close>, \<^verbatim>\<open>-\<close>, \<^verbatim>\<open>*\<close> and \<^verbatim>\<open>/\<close> of the language on binary64 numbers. (The
  remainder \<^verbatim>\<open>%\<close> of two binary64 numbers is a binary64 number: \<open>js_rem\<close> does not
  round.)\<close>

definition js_add :: "jsnum \<Rightarrow> jsnum \<Rightarrow> jsnum" where
  "js_add x y = rounded (x + y)"

definition js_sub :: "jsnum \<Rightarrow> jsnum \<Rightarrow> jsnum" where
  "js_sub x y = rounded (x - y)"

definition js_mul :: "jsnum \<Rightarrow> jsnum \<Rightarrow> jsnum" where
  "js_mul x y = rounded (x * y)"

definition js_div :: "jsnum \<Rightarrow> jsnum \<Rightarrow> jsnum" where
  "js_div x y = rounded (x / y)"


subsection \<open>The functions of \<^verbatim>\<open>Math\<close>\<close>

text \<open>The functions of \<^verbatim>\<open>Math\<close> are implementation-approximated in the language; here they
  are the exact functions.\<close>

fun Math_sqrt :: "jsnum \<Rightarrow> jsnum" where
  "Math_sqrt (Fin r) = (if r < 0 then NaN else Fin (sqrt r))"
| "Math_sqrt PInf = PInf"
| "Math_sqrt _ = NaN"

fun Math_sin :: "jsnum \<Rightarrow> jsnum" where
  "Math_sin (Fin r) = Fin (sin r)"
| "Math_sin _ = NaN"

fun Math_cos :: "jsnum \<Rightarrow> jsnum" where
  "Math_cos (Fin r) = Fin (cos r)"
| "Math_cos _ = NaN"

text \<open>The tangent is the quotient of sine and cosine; where the cosine vanishes (at
  arguments that are no binary64 numbers) the quotient is an infinity.\<close>

definition Math_tan :: "jsnum \<Rightarrow> jsnum" where
  "Math_tan x = Math_sin x / Math_cos x"

text \<open>\<^verbatim>\<open>Math.atan2(y, x)\<close>: the angle of the point \<open>(x, y)\<close>, in \<open>[-\<pi>, \<pi>]\<close>. The zero of
  the model is \<open>+0\<close>: the values of the language at \<open>-0\<close> (\<^verbatim>\<open>Math.atan2(0, -0)\<close> is \<open>\<pi>\<close>)
  are not represented.\<close>

definition atan2 :: "real \<Rightarrow> real \<Rightarrow> real" where
  "atan2 y x =
     (if 0 < x then arctan (y / x)
      else if x < 0 then (if 0 \<le> y then arctan (y / x) + pi else arctan (y / x) - pi)
      else if 0 < y then pi / 2
      else if y < 0 then - (pi / 2)
      else 0)"

fun Math_atan2 :: "jsnum \<Rightarrow> jsnum \<Rightarrow> jsnum" where
  "Math_atan2 NaN _ = NaN"
| "Math_atan2 _ NaN = NaN"
| "Math_atan2 (Fin y) (Fin x) = Fin (atan2 y x)"
| "Math_atan2 (Fin y) PInf = Fin 0"
| "Math_atan2 (Fin y) NInf = (if 0 \<le> y then Fin pi else Fin (- pi))"
| "Math_atan2 PInf (Fin x) = Fin (pi / 2)"
| "Math_atan2 NInf (Fin x) = Fin (- (pi / 2))"
| "Math_atan2 PInf PInf = Fin (pi / 4)"
| "Math_atan2 PInf NInf = Fin (3 * pi / 4)"
| "Math_atan2 NInf PInf = Fin (- (pi / 4))"
| "Math_atan2 NInf NInf = Fin (- (3 * pi / 4))"

text \<open>\<^verbatim>\<open>Number.prototype.toRadians\<close> and \<^verbatim>\<open>toDegrees\<close>.\<close>

definition toRadians :: "jsnum \<Rightarrow> jsnum" where
  "toRadians this = this * Fin pi / Fin 180"

definition toDegrees :: "jsnum \<Rightarrow> jsnum" where
  "toDegrees this = this * Fin 180 / Fin pi"

section \<open>Dms: wrapping of degrees\<close>

text \<open>The three functions are computed in binary64, as the language does: every
  arithmetic operation rounds (\<^verbatim>\<open>2 * a * x / p\<close> is \<^verbatim>\<open>((2 * a) * x) / p\<close>).\<close>

text \<open>\<^verbatim>\<open>Dms.wrap90\<close>: constrain degrees to the range -90..+90 by a triangle wave,
  \<^verbatim>\<open>4 * a / p * Math.abs((((x - p / 4) % p) + p) % p - p / 2) - a\<close>.\<close>

definition wrap90 :: "jsnum \<Rightarrow> jsnum" where
  "wrap90 degrees =
     (if Fin (- 90) \<le> degrees \<and> degrees \<le> Fin 90 then degrees
      else let x = degrees; a = Fin 90; p = Fin 360 in
        js_sub (js_mul (js_div (js_mul (Fin 4) a) p)
                  \<bar>js_sub (js_rem (js_add (js_rem (js_sub x (js_div p (Fin 4))) p) p) p)
                          (js_div p (Fin 2))\<bar>) a)"

text \<open>\<^verbatim>\<open>Dms.wrap180\<close>: constrain degrees to the range -180..+180 by a sawtooth wave,
  \<^verbatim>\<open>(((2 * a * x / p - p / 2) % p) + p) % p - a\<close>.\<close>

definition wrap180 :: "jsnum \<Rightarrow> jsnum" where
  "wrap180 degrees =
     (if Fin (- 180) \<le> degrees \<and> degrees \<le> Fin 180 then degrees
      else let x = degrees; a = Fin 180; p = Fin 360 in
        js_sub (js_rem (js_add (js_rem (js_sub (js_div (js_mul (js_mul (Fin 2) a) x) p)
                                                (js_div p (Fin 2))) p) p) p) a)"

text \<open>\<^verbatim>\<open>Dms.wrap360\<close>: constrain degrees to the range 0..360 by a sawtooth wave,
  \<^verbatim>\<open>(((2 * a * x / p) % p) + p) % p\<close>.\<close>

definition wrap360 :: "jsnum \<Rightarrow> jsnum" where
  "wrap360 degrees =
     (if Fin 0 \<le> degrees \<and> degrees < Fin 360 then degrees
      else let x = degrees; a = Fin 180; p = Fin 360 in
        js_rem (js_add (js_rem (js_div (js_mul (js_mul (Fin 2) a) x) p) p) p) p)"

text \<open>\<^verbatim>\<open>Dms.parse\<close> on an argument that is a number: a finite number is returned as it
  is (line 19); NaN and the infinities are printed as \<^verbatim>\<open>'NaN'\<close>, \<^verbatim>\<open>'Infinity'\<close>, which
  contain no digit, so that the split leaves one empty part and the result is NaN
  (line 25). The parsing of degree/minute/second strings is not modelled.\<close>

definition Dms_parse :: "jsnum \<Rightarrow> jsnum" where
  "Dms_parse dms = (if isFinite dms then dms else NaN)"

section \<open>Errors\<close>

datatype error = TypeError | RangeError | EvalError | Error

section \<open>Ellipsoids, datums and geodetic points (class \<^verbatim>\<open>LatLonEllipsoidal\<close>)\<close>

record ellipsoid =
  ell_a :: jsnum
  ell_b :: jsnum
  ell_f :: jsnum

definition ellipsoids_WGS84 :: ellipsoid where
  "ellipsoids_WGS84 =
     \<lparr>ell_a = Fin 6378137, ell_b = Fin 6356752.314245, ell_f = Fin 1 / Fin 298.257223563\<rparr>"

text \<open>
  A datum is an object with the properties \<^verbatim>\<open>ellipsoid\<close> and \<^verbatim>\<open>transform\<close>, either of
  which may be undefined (\<open>None\<close>). Datum objects are compared by reference
  (\<^verbatim>\<open>this.datum == datums.WGS84\<close>); \<open>d_ref\<close> is the identity of the object, so that
  equality of records is equality of references.
\<close>

record datum =
  d_ref :: nat
  d_ellipsoid :: "ellipsoid option"
  d_transform :: "jsnum list option"

text \<open>An instance of \<^verbatim>\<open>LatLonEllipsoidal\<close>: the private fields \<^verbatim>\<open>_lat\<close>, \<^verbatim>\<open>_lon\<close>,
  \<^verbatim>\<open>_height\<close> and \<^verbatim>\<open>_datum\<close> (undefined until the setter \<^verbatim>\<open>datum\<close> assigns it).\<close>

record latlon =
  ll_lat :: jsnum
  ll_lon :: jsnum
  ll_height :: jsnum
  ll_datum :: "datum option"

text \<open>The constructor, on numbers (\<^verbatim>\<open>x == null\<close> is false for every number). It takes
  three arguments; a fourth one is ignored, as JavaScript does with extra arguments.\<close>

definition new_LatLonEllipsoidal :: "jsnum \<Rightarrow> jsnum \<Rightarrow> jsnum \<Rightarrow> error + latlon" where
  "new_LatLonEllipsoidal lat lon height =
     (if isNaN lat then Inl TypeError
      else if isNaN lon then Inl TypeError
      else if isNaN height then Inl TypeError
      else Inr \<lparr>ll_lat = wrap90 lat, ll_lon = wrap180 lon, ll_height = height,
                ll_datum = None\<rparr>)"

text \<open>The setters assign the field first and throw afterwards, so the result is the
  exception raised (if any) together with the object as the setter leaves it.\<close>

definition set_lat :: "jsnum \<Rightarrow> latlon \<Rightarrow> error option \<times> latlon" where
  "set_lat lat this =
     (let this' = this\<lparr>ll_lat := (if isNaN lat then wrap90 (Dms_parse lat) else wrap90 lat)\<rparr>
      in if isNaN (ll_lat this') then (Some TypeError, this') else (None, this'))"





definition set_datum :: "datum option \<Rightarrow> latlon \<Rightarrow> latlon" where
  "set_datum datum this = this\<lparr>ll_datum := datum\<rparr>"

section \<open>Vincenty direct solution (class \<^verbatim>\<open>LatLonEllipsoidal_Vincenty\<close>)\<close>

record direct_result =
  dr_point :: latlon
  dr_finalBearing :: jsnum
  dr_iterations :: nat

text \<open>The constants that \<^verbatim>\<open>direct\<close> computes before its loop (lines 50 to 67).\<close>

record direct_consts =
  dc_\<phi>1 :: jsnum
  dc_lam1 :: jsnum
  dc_\<alpha>1 :: jsnum
  dc_s :: jsnum
  dc_a :: jsnum
  dc_b :: jsnum
  dc_f :: jsnum
  dc_sin\<alpha>1 :: jsnum
  dc_cos\<alpha>1 :: jsnum
  dc_tanU1 :: jsnum
  dc_cosU1 :: jsnum
  dc_sinU1 :: jsnum
  dc_\<sigma>1 :: jsnum
  dc_sin\<alpha> :: jsnum
  dc_cosSq\<alpha> :: jsnum
  dc_uSq :: jsnum
  dc_A :: jsnum
  dc_B :: jsnum

definition direct_consts :: "latlon \<Rightarrow> jsnum \<Rightarrow> jsnum \<Rightarrow> ellipsoid \<Rightarrow> direct_consts" where
  "direct_consts this distance initialBearing ellipsoid =
     (let \<phi>1 = toRadians (ll_lat this); lam1 = toRadians (ll_lon this);
          \<alpha>1 = toRadians initialBearing;
          s = distance;
          a = ell_a ellipsoid; b = ell_b ellipsoid; f = ell_f ellipsoid;
          sin\<alpha>1 = Math_sin \<alpha>1;
          cos\<alpha>1 = Math_cos \<alpha>1;
          tanU1 = (Fin 1 - f) * Math_tan \<phi>1;
          cosU1 = Fin 1 / Math_sqrt (Fin 1 + tanU1 * tanU1);
          sinU1 = tanU1 * cosU1;
          \<sigma>1 = Math_atan2 tanU1 cos\<alpha>1;
          sin\<alpha> = cosU1 * sin\<alpha>1;
          cosSq\<alpha> = Fin 1 - sin\<alpha> * sin\<alpha>;
          uSq = cosSq\<alpha> * (a * a - b * b) / (b * b);
          A = Fin 1 + uSq / Fin 16384
                * (Fin 4096 + uSq * (Fin (- 768) + uSq * (Fin 320 - Fin 175 * uSq)));
          B = uSq / Fin 1024 * (Fin 256 + uSq * (Fin (- 128) + uSq * (Fin 74 - Fin 47 * uSq)))
      in \<lparr>dc_\<phi>1 = \<phi>1, dc_lam1 = lam1, dc_\<alpha>1 = \<alpha>1, dc_s = s, dc_a = a, dc_b = b, dc_f = f,
          dc_sin\<alpha>1 = sin\<alpha>1, dc_cos\<alpha>1 = cos\<alpha>1, dc_tanU1 = tanU1, dc_cosU1 = cosU1,
          dc_sinU1 = sinU1, dc_\<sigma>1 = \<sigma>1, dc_sin\<alpha> = sin\<alpha>, dc_cosSq\<alpha> = cosSq\<alpha>, dc_uSq = uSq,
          dc_A = A, dc_B = B\<rparr>)"

text \<open>The variables of the loop (lines 69 to 72).\<close>

record sigma_state =
  ss_\<sigma> :: jsnum
  ss_sin\<sigma> :: jsnum
  ss_cos\<sigma> :: jsnum
  ss_cos2\<sigma>\<^sub>m :: jsnum
  ss_\<sigma>' :: jsnum
  ss_iterations :: nat

text \<open>
  The arithmetic of the loop. Whether the loop converges depends on how each operation
  rounds and on the values that \<^verbatim>\<open>Math.sin\<close> and \<^verbatim>\<open>Math.cos\<close> return, which the language
  leaves to the implementation. The loop is therefore written over an arithmetic \<open>ar\<close>:
  its four operators, its sine and cosine, and the number that a decimal literal
  denotes. \<open>exact\<close> is the arithmetic of the real numbers; \<open>binary64 sin64 cos64\<close> is
  that of the language, on an implementation whose \<^verbatim>\<open>Math.sin\<close> and \<^verbatim>\<open>Math.cos\<close> are
  \<open>sin64\<close> and \<open>cos64\<close>.
\<close>

record arith =
  ar_add :: "jsnum \<Rightarrow> jsnum \<Rightarrow> jsnum"
  ar_sub :: "jsnum \<Rightarrow> jsnum \<Rightarrow> jsnum"
  ar_mul :: "jsnum \<Rightarrow> jsnum \<Rightarrow> jsnum"
  ar_div :: "jsnum \<Rightarrow> jsnum \<Rightarrow> jsnum"
  ar_sin :: "jsnum \<Rightarrow> jsnum"
  ar_cos :: "jsnum \<Rightarrow> jsnum"
  ar_num :: "real \<Rightarrow> jsnum"

definition exact :: arith where
  "exact = \<lparr>ar_add = (+), ar_sub = (-), ar_mul = (*), ar_div = (/),
             ar_sin = Math_sin, ar_cos = Math_cos, ar_num = Fin\<rparr>"

definition binary64 :: "(jsnum \<Rightarrow> jsnum) \<Rightarrow> (jsnum \<Rightarrow> jsnum) \<Rightarrow> arith" where
  "binary64 sin64 cos64 = \<lparr>ar_add = js_add, ar_sub = js_sub, ar_mul = js_mul, ar_div = js_div,
             ar_sin = sin64, ar_cos = cos64, ar_num = round64\<rparr>"

text \<open>An arithmetic whose sine is 1 at 1 and 0 elsewhere, and whose cosine is 1 (used
  in an example).\<close>

definition two_cycle :: arith where
  "two_cycle = exact\<lparr>ar_sin := (\<lambda>x. if x = Fin 1 then Fin 1 else Fin 0), ar_cos := (\<lambda>x. Fin 1)\<rparr>"

text \<open>The correction \<open>\<Delta>\<sigma>\<close> (line 77):
  \<^verbatim>\<open>B * sin\<sigma> * (cos2\<sigma>m + B / 4 * (cos\<sigma> * (-1 + 2 * cos2\<sigma>m * cos2\<sigma>m)
    - B / 6 * cos2\<sigma>m * (-3 + 4 * sin\<sigma> * sin\<sigma>) * (-3 + 4 * cos2\<sigma>m * cos2\<sigma>m)))\<close>,
  every operator applied to its two operands as the language groups them.\<close>

definition delta_sigma :: "arith \<Rightarrow> jsnum \<Rightarrow> jsnum \<Rightarrow> jsnum \<Rightarrow> jsnum \<Rightarrow> jsnum" where
  "delta_sigma ar B sin\<sigma> cos\<sigma> cos2\<sigma>\<^sub>m =
     (let add = ar_add ar; sub = ar_sub ar; mul = ar_mul ar; quo = ar_div ar in
      mul (mul B sin\<sigma>)
        (add cos2\<sigma>\<^sub>m
           (mul (quo B (Fin 4))
              (sub (mul cos\<sigma> (add (Fin (- 1)) (mul (mul (Fin 2) cos2\<sigma>\<^sub>m) cos2\<sigma>\<^sub>m)))
                   (mul (mul (mul (quo B (Fin 6)) cos2\<sigma>\<^sub>m)
                           (add (Fin (- 3)) (mul (mul (Fin 4) sin\<sigma>) sin\<sigma>)))
                        (add (Fin (- 3)) (mul (mul (Fin 4) cos2\<sigma>\<^sub>m) cos2\<sigma>\<^sub>m)))))))"

text \<open>One pass through the body of the \<^verbatim>\<open>do\<close> loop (lines 74 to 79).\<close>

definition sigma_pass ::
  "arith \<Rightarrow> jsnum \<Rightarrow> jsnum \<Rightarrow> jsnum \<Rightarrow> jsnum \<Rightarrow> jsnum \<Rightarrow> jsnum \<Rightarrow> nat \<Rightarrow> sigma_state" where
  "sigma_pass ar s b A B \<sigma>1 \<sigma> iterations =
     (let cos2\<sigma>\<^sub>m = ar_cos ar (ar_add ar (ar_mul ar (Fin 2) \<sigma>1) \<sigma>);
          sin\<sigma> = ar_sin ar \<sigma>;
          cos\<sigma> = ar_cos ar \<sigma>;
          \<Delta>\<sigma> = delta_sigma ar B sin\<sigma> cos\<sigma> cos2\<sigma>\<^sub>m;
          \<sigma>' = \<sigma>
      in \<lparr>ss_\<sigma> = ar_add ar (ar_div ar s (ar_mul ar b A)) \<Delta>\<sigma>, ss_sin\<sigma> = sin\<sigma>, ss_cos\<sigma> = cos\<sigma>,
          ss_cos2\<sigma>\<^sub>m = cos2\<sigma>\<^sub>m, ss_\<sigma>' = \<sigma>', ss_iterations = iterations\<rparr>)"

text \<open>The loop \<^verbatim>\<open>do { ... } while (Math.abs(\<sigma> - \<sigma>') > 1e-12 && ++iterations < 100)\<close>:
  the counter is incremented only when the first test holds.\<close>

function sigma_loop ::
  "arith \<Rightarrow> jsnum \<Rightarrow> jsnum \<Rightarrow> jsnum \<Rightarrow> jsnum \<Rightarrow> jsnum \<Rightarrow> jsnum \<Rightarrow> nat \<Rightarrow> sigma_state" where
  "sigma_loop ar s b A B \<sigma>1 \<sigma> iterations =
     (let st = sigma_pass ar s b A B \<sigma>1 \<sigma> iterations in
      if \<bar>ar_sub ar (ss_\<sigma> st) (ss_\<sigma>' st)\<bar> > ar_num ar (1 / 10 ^ 12) then
        (if Suc iterations < 100
         then sigma_loop ar s b A B \<sigma>1 (ss_\<sigma> st) (Suc iterations)
         else st\<lparr>ss_iterations := Suc iterations\<rparr>)
      else st)"
  by pat_completeness auto
termination
  by (relation "measure (\<lambda>(ar, s, b, A, B, \<sigma>1, \<sigma>, iterations). 100 - iterations)") auto

declare sigma_loop.simps [simp del]

text \<open>The iteration (lines 69 to 81): the loop, started at \<^verbatim>\<open>\<sigma> = s / (b * A)\<close> with the
  counter at 0, and the test \<^verbatim>\<open>if (iterations >= 100) throw new EvalError(...)\<close> that
  follows it.\<close>

definition sigma_iteration ::
  "arith \<Rightarrow> jsnum \<Rightarrow> jsnum \<Rightarrow> jsnum \<Rightarrow> jsnum \<Rightarrow> jsnum \<Rightarrow> error + sigma_state" where
  "sigma_iteration ar s b A B \<sigma>1 =
     (let st = sigma_loop ar s b A B \<sigma>1 (ar_div ar s (ar_mul ar b A)) 0
      in if ss_iterations st \<ge> 100 then Inl EvalError else Inr st)"

text \<open>The closed-form part after the loop (lines 83 to 98). The destination is built
  by the constructor of \<^verbatim>\<open>LatLonEllipsoidal\<close>, which \<^verbatim>\<open>LatLonEllipsoidal_Vincenty\<close>
  inherits: it takes latitude, longitude and height, and ignores the fourth argument
  \<^verbatim>\<open>this.datum\<close>.\<close>

definition direct_finish :: "direct_consts \<Rightarrow> sigma_state \<Rightarrow> error + direct_result" where
  "direct_finish c st =
     (let f = dc_f c; sinU1 = dc_sinU1 c; cosU1 = dc_cosU1 c; sin\<alpha>1 = dc_sin\<alpha>1 c;
          cos\<alpha>1 = dc_cos\<alpha>1 c; sin\<alpha> = dc_sin\<alpha> c; cosSq\<alpha> = dc_cosSq\<alpha> c; lam1 = dc_lam1 c;
          \<sigma> = ss_\<sigma> st; sin\<sigma> = ss_sin\<sigma> st; cos\<sigma> = ss_cos\<sigma> st; cos2\<sigma>\<^sub>m = ss_cos2\<sigma>\<^sub>m st;
          x = sinU1 * sin\<sigma> - cosU1 * cos\<sigma> * cos\<alpha>1;
          \<phi>2 = Math_atan2 (sinU1 * cos\<sigma> + cosU1 * sin\<sigma> * cos\<alpha>1)
                 ((Fin 1 - f) * Math_sqrt (sin\<alpha> * sin\<alpha> + x * x));
          lam = Math_atan2 (sin\<sigma> * sin\<alpha>1) (cosU1 * cos\<sigma> - sinU1 * sin\<sigma> * cos\<alpha>1);
          C = f / Fin 16 * cosSq\<alpha> * (Fin 4 + f * (Fin 4 - Fin 3 * cosSq\<alpha>));
          L = lam - (Fin 1 - C) * f * sin\<alpha>
                * (\<sigma> + C * sin\<sigma> * (cos2\<sigma>\<^sub>m + C * cos\<sigma> * (Fin (- 1) + Fin 2 * cos2\<sigma>\<^sub>m * cos2\<sigma>\<^sub>m)));
          lam2 = lam1 + L;
          \<alpha>2 = Math_atan2 sin\<alpha> (- x)
      in case new_LatLonEllipsoidal (toDegrees \<phi>2) (toDegrees lam2) (Fin 0) of
           Inl e \<Rightarrow> Inl e
         | Inr destinationPoint \<Rightarrow>
             Inr \<lparr>dr_point = destinationPoint, dr_finalBearing = wrap360 (toDegrees \<alpha>2),
                  dr_iterations = ss_iterations st\<rparr>)"

text \<open>The ellipsoid of a point (line 55):
  \<^verbatim>\<open>this.datum ? this.datum.ellipsoid : LatLonEllipsoidal.ellipsoids.WGS84\<close>.\<close>

definition direct_ellipsoid :: "latlon \<Rightarrow> ellipsoid option" where
  "direct_ellipsoid this =
     (case ll_datum this of Some d \<Rightarrow> d_ellipsoid d | None \<Rightarrow> Some ellipsoids_WGS84)"

text \<open>\<^verbatim>\<open>direct(distance, initialBearing)\<close> on numbers, in the arithmetic of the real
  numbers. Reading \<^verbatim>\<open>a\<close>, \<^verbatim>\<open>b\<close>, \<^verbatim>\<open>f\<close> from an undefined ellipsoid is a TypeError of the
  language.\<close>

definition direct :: "latlon \<Rightarrow> jsnum \<Rightarrow> jsnum \<Rightarrow> error + direct_result" where
  "direct this distance initialBearing =
     (if isNaN distance then Inl TypeError
      else if js_eq distance (Fin 0)
        then Inr \<lparr>dr_point = this, dr_finalBearing = NaN, dr_iterations = 0\<rparr>
      else if isNaN initialBearing then Inl TypeError
      else if js_ne (ll_height this) (Fin 0) then Inl RangeError
      else
        case direct_ellipsoid this of
          None \<Rightarrow> Inl TypeError
        | Some ellipsoid \<Rightarrow>
            let c = direct_consts this distance initialBearing ellipsoid
            in case sigma_iteration exact (dc_s c) (dc_b c) (dc_A c) (dc_B c) (dc_\<sigma>1 c) of
                 Inl e \<Rightarrow> Inl e
               | Inr st \<Rightarrow> direct_finish c st)"

text \<open>The value of \<open>\<sigma>\<close> after \<open>n\<close> passes through the body of the loop, starting from
  \<open>\<sigma>0\<close>, and the test that keeps the loop running after pass \<open>n + 1\<close>.\<close>

primrec sigma_iter ::
  "arith \<Rightarrow> jsnum \<Rightarrow> jsnum \<Rightarrow> jsnum \<Rightarrow> jsnum \<Rightarrow> jsnum \<Rightarrow> jsnum \<Rightarrow> nat \<Rightarrow> jsnum" where
  "sigma_iter ar s b A B \<sigma>1 \<sigma>0 0 = \<sigma>0"
| "sigma_iter ar s b A B \<sigma>1 \<sigma>0 (Suc n) =
     ss_\<sigma> (sigma_pass ar s b A B \<sigma>1 (sigma_iter ar s b A B \<sigma>1 \<sigma>0 n) 0)"

definition unconverged ::
  "arith \<Rightarrow> jsnum \<Rightarrow> jsnum \<Rightarrow> jsnum \<Rightarrow> jsnum \<Rightarrow> jsnum \<Rightarrow> jsnum \<Rightarrow> nat \<Rightarrow> bool" where
  "unconverged ar s b A B \<sigma>1 \<sigma>0 n =
     (\<bar>ar_sub ar (sigma_iter ar s b A B \<sigma>1 \<sigma>0 (Suc n)) (sigma_iter ar s b A B \<sigma>1 \<sigma>0 n)\<bar>
        > ar_num ar (1 / 10 ^ 12))"

text \<open>The ellipsoid \<^verbatim>\<open>Airy1830\<close> of latlon-ellipsoidal-datum.js (line 7), and a datum
  object \<^verbatim>\<open>{ ellipsoid: ellipsoids.Airy1830 }\<close> as a caller assigns to \<^verbatim>\<open>point.datum\<close>
  for a Vincenty calculation on another ellipsoid (used in examples).\<close>

definition ellipsoids_Airy1830 :: ellipsoid where
  "ellipsoids_Airy1830 =
     \<lparr>ell_a = Fin 6377563.396, ell_b = Fin 6356256.909, ell_f = Fin 1 / Fin 299.3249646\<rparr>"

definition airy_datum :: datum where
  "airy_datum = \<lparr>d_ref = 1, d_ellipsoid = Some ellipsoids_Airy1830, d_transform = None\<rparr>"

text \<open>A point on the equator, on the default ellipsoid (used in examples).\<close>

definition equator_origin :: latlon where
  "equator_origin = \<lparr>ll_lat = Fin 0, ll_lon = Fin 0, ll_height = Fin 0, ll_datum = None\<rparr>"

section \<open>The waves of the wrapping functions\<close>

text \<open>The modulo of the comments of \<^verbatim>\<open>Dms.wrap90\<close> and \<^verbatim>\<open>Dms.wrap180\<close>, the triangle wave
  \<open>f(x) = 4a/p \<sqdot> |(x - p/4) mod p - p/2| - a\<close> with \<open>a = 90\<close>, \<open>p = 360\<close>, and the sawtooth
  wave \<open>f(x) = (2ax/p - p/2) mod p - a\<close> with \<open>a = 180\<close>, \<open>p = 360\<close>.\<close>

definition floor_mod :: "real \<Rightarrow> real \<Rightarrow> real" where
  "floor_mod x n = x - n * of_int \<lfloor>x / n\<rfloor>"

definition triangle90 :: "real \<Rightarrow> real" where
  "triangle90 x = \<bar>floor_mod (x - 90) 360 - 180\<bar> - 90"

definition sawtooth180 :: "real \<Rightarrow> real" where
  "sawtooth180 x = floor_mod (x - 180) 360 - 180"

section \<open>Cartesian coordinates (classes \<^verbatim>\<open>Vector3d\<close> and \<^verbatim>\<open>Cartesian\<close>)\<close>

record vector3d =
  v_x :: jsnum
  v_y :: jsnum
  v_z :: jsnum

text \<open>The constructor of \<^verbatim>\<open>Vector3d\<close>, which \<^verbatim>\<open>Cartesian\<close> calls.\<close>

definition new_Vector3d :: "jsnum \<Rightarrow> jsnum \<Rightarrow> jsnum \<Rightarrow> error + vector3d" where
  "new_Vector3d x y z =
     (if isNaN x \<or> isNaN y \<or> isNaN z then Inl TypeError
      else Inr \<lparr>v_x = x, v_y = y, v_z = z\<rparr>)"

text \<open>\<^verbatim>\<open>LatLonEllipsoidal.toCartesian()\<close>, for a point without a reference frame (the
  record has none): the ellipsoid is that of the datum, or WGS84.\<close>

definition toCartesian :: "latlon \<Rightarrow> error + vector3d" where
  "toCartesian this =
     (case (case ll_datum this of Some d \<Rightarrow> d_ellipsoid d | None \<Rightarrow> Some ellipsoids_WGS84) of
        None \<Rightarrow> Inl TypeError
      | Some ellipsoid \<Rightarrow>
          let \<phi> = toRadians (ll_lat this);
              lam = toRadians (ll_lon this);
              h = ll_height this;
              a = ell_a ellipsoid; f = ell_f ellipsoid;
              sin\<phi> = Math_sin \<phi>; cos\<phi> = Math_cos \<phi>;
              sinlam = Math_sin lam; coslam = Math_cos lam;
              eSq = Fin 2 * f - f * f;
              \<nu> = a / Math_sqrt (Fin 1 - eSq * sin\<phi> * sin\<phi>);
              x = (\<nu> + h) * cos\<phi> * coslam;
              y = (\<nu> + h) * cos\<phi> * sinlam;
              z = (\<nu> * (Fin 1 - eSq) + h) * sin\<phi>
          in new_Vector3d x y z)"

text \<open>\<^verbatim>\<open>Cartesian.toLatLon(ellipsoid = ellipsoids.WGS84)\<close>; \<open>None\<close> is the argument left
  out. An ellipsoid whose \<^verbatim>\<open>a\<close> is falsy is refused.\<close>

definition Cartesian_toLatLon :: "vector3d \<Rightarrow> ellipsoid option \<Rightarrow> error + latlon" where
  "Cartesian_toLatLon this ellipsoid_arg =
     (let ellipsoid = (case ellipsoid_arg of None \<Rightarrow> ellipsoids_WGS84 | Some e \<Rightarrow> e) in
      if \<not> truthy (ell_a ellipsoid) then Inl TypeError
      else
        let x = v_x this; y = v_y this; z = v_z this;
            a = ell_a ellipsoid; b = ell_b ellipsoid; f = ell_f ellipsoid;
            e2 = Fin 2 * f - f * f;
            \<epsilon>2 = e2 / (Fin 1 - e2);
            p = Math_sqrt (x * x + y * y);
            R = Math_sqrt (p * p + z * z);
            tan\<beta> = (b * z) / (a * p) * (Fin 1 + \<epsilon>2 * b / R);
            sin\<beta> = tan\<beta> / Math_sqrt (Fin 1 + tan\<beta> * tan\<beta>);
            cos\<beta> = sin\<beta> / tan\<beta>;
            \<phi> = (if isNaN cos\<beta> then Fin 0
                 else Math_atan2 (z + \<epsilon>2 * b * sin\<beta> * sin\<beta> * sin\<beta>)
                        (p - e2 * a * cos\<beta> * cos\<beta> * cos\<beta>));
            lam = Math_atan2 y x;
            sin\<phi> = Math_sin \<phi>; cos\<phi> = Math_cos \<phi>;
            \<nu> = a / Math_sqrt (Fin 1 - e2 * sin\<phi> * sin\<phi>);
            h = p * cos\<phi> + z * sin\<phi> - (a * a / \<nu>)
        in new_LatLonEllipsoidal (toDegrees \<phi>) (toDegrees lam) h)"

section \<open>Datums and the 7-parameter transform (class \<^verbatim>\<open>Cartesian_Datum\<close>)\<close>

text \<open>
  The table \<^verbatim>\<open>datums\<close> of this file (lines 19 to 29) gives every datum the three
  properties \<^verbatim>\<open>a\<close>, \<^verbatim>\<open>b\<close>, \<^verbatim>\<open>f\<close> of its ellipsoid, and neither \<^verbatim>\<open>ellipsoid\<close> nor
  \<^verbatim>\<open>transform\<close>: both are undefined for \<^verbatim>\<open>datums.WGS84\<close>, the object the conversion
  compares datums with.
\<close>

definition datums_WGS84 :: datum where
  "datums_WGS84 = \<lparr>d_ref = 0, d_ellipsoid = None, d_transform = None\<rparr>"

text \<open>Datum objects with both properties, as a caller can build them: WGS84 with the
  null transform and OSGB36 on the Airy 1830 ellipsoid (used in examples).\<close>

definition wgs84_datum :: datum where
  "wgs84_datum = \<lparr>d_ref = 2, d_ellipsoid = Some ellipsoids_WGS84,
     d_transform = Some [Fin 0, Fin 0, Fin 0, Fin 0, Fin 0, Fin 0, Fin 0]\<rparr>"

definition osgb36_datum :: datum where
  "osgb36_datum = \<lparr>d_ref = 3, d_ellipsoid = Some ellipsoids_Airy1830,
     d_transform = Some [Fin (- 446.448), Fin 125.157, Fin (- 542.060), Fin 20.4894,
       Fin (- 0.1502), Fin (- 0.2470), Fin (- 0.8421)]\<rparr>"

record cartesian_datum = vector3d +
  cd_datum :: "datum option"

definition new_Cartesian_Datum ::
  "jsnum \<Rightarrow> jsnum \<Rightarrow> jsnum \<Rightarrow> datum option \<Rightarrow> error + cartesian_datum" where
  "new_Cartesian_Datum x y z datum =
     (if (case datum of Some d \<Rightarrow> d_ellipsoid d = None | None \<Rightarrow> False) then Inl TypeError
      else (case new_Vector3d x y z of
              Inl e \<Rightarrow> Inl e
            | Inr v \<Rightarrow> Inr \<lparr>v_x = v_x v, v_y = v_y v, v_z = v_z v, cd_datum = datum\<rparr>))"

text \<open>The setter \<^verbatim>\<open>datum\<close> of \<^verbatim>\<open>Cartesian_Datum\<close>.\<close>

definition Cartesian_Datum_set_datum ::
  "datum option \<Rightarrow> cartesian_datum \<Rightarrow> error + cartesian_datum" where
  "Cartesian_Datum_set_datum datum this =
     (case datum of
        None \<Rightarrow> Inl TypeError
      | Some d \<Rightarrow> if d_ellipsoid d = None then Inl TypeError else Inr (this\<lparr>cd_datum := Some d\<rparr>))"

text \<open>Reading an array beyond its end gives \<^verbatim>\<open>undefined\<close>, which arithmetic turns into
  NaN.\<close>

definition item :: "jsnum list \<Rightarrow> nat \<Rightarrow> jsnum" where
  "item t i = (if i < length t then t ! i else NaN)"

text \<open>\<^verbatim>\<open>applyTransform(t)\<close>; indexing an undefined \<^verbatim>\<open>t\<close> is a TypeError of the language.\<close>

definition applyTransform :: "cartesian_datum \<Rightarrow> jsnum list option \<Rightarrow> error + cartesian_datum" where
  "applyTransform this t_arg =
     (case t_arg of
        None \<Rightarrow> Inl TypeError
      | Some t \<Rightarrow>
          let x1 = v_x this; y1 = v_y this; z1 = v_z this;
              tx = item t 0;
              ty = item t 1;
              tz = item t 2;
              s = item t 3 / Fin (10 ^ 6) + Fin 1;
              rx = toRadians (item t 4 / Fin 3600);
              ry = toRadians (item t 5 / Fin 3600);
              rz = toRadians (item t 6 / Fin 3600);
              x2 = tx + x1 * s - y1 * rz + z1 * ry;
              y2 = ty + x1 * rz + y1 * s - z1 * rx;
              z2 = tz - x1 * ry + y1 * rx + z1 * s
          in new_Cartesian_Datum x2 y2 z2 None)"

text \<open>\<^verbatim>\<open>convertDatum(toDatum)\<close>, with the registry object \<^verbatim>\<open>datums.WGS84\<close> of the module as
  the parameter \<open>WGS84\<close>. The two variables \<^verbatim>\<open>oldCartesian\<close> and \<^verbatim>\<open>transform\<close> start as
  \<^verbatim>\<open>null\<close> and are assigned by the three \<^verbatim>\<open>if\<close> statements in turn; the third calls
  \<^verbatim>\<open>convertDatum\<close> again, with \<^verbatim>\<open>datums.WGS84\<close>. (The first test also has
  \<^verbatim>\<open>this.datum == undefined\<close>, which cannot hold after the guard \<^verbatim>\<open>!this.datum\<close>.)\<close>

function convertDatum_in ::
  "datum \<Rightarrow> cartesian_datum \<Rightarrow> datum option \<Rightarrow> error + cartesian_datum" where
  "convertDatum_in WGS84 this toDatum =
     (case toDatum of
        None \<Rightarrow> Inl TypeError
      | Some td \<Rightarrow>
          (if d_ellipsoid td = None then Inl TypeError
           else
             (case cd_datum this of
                None \<Rightarrow> Inl TypeError
              | Some sd \<Rightarrow>
                  (let st0 = (None, None);
                       st1 = (if sd = WGS84 then (Some this, d_transform td) else st0)
                   in
                     (case (if td = WGS84
                            then (case d_transform sd of
                                    None \<Rightarrow> Inl TypeError
                                  | Some tr \<Rightarrow> Inr (Some this, Some (map uminus tr)))
                            else Inr st1) of
                        Inl e \<Rightarrow> Inl e
                      | Inr st2 \<Rightarrow>
                          (case (if snd st2 = None
                                 then (case convertDatum_in WGS84 this (Some WGS84) of
                                         Inl e \<Rightarrow> Inl e
                                       | Inr c \<Rightarrow> Inr (Some c, d_transform td))
                                 else Inr st2) of
                             Inl e \<Rightarrow> Inl e
                           | Inr st3 \<Rightarrow>
                               (case fst st3 of
                                  None \<Rightarrow> Inl TypeError
                                | Some oldCartesian \<Rightarrow>
                                    (case applyTransform oldCartesian (snd st3) of
                                       Inl e \<Rightarrow> Inl e
                                     | Inr newCartesian \<Rightarrow>
                                         Cartesian_Datum_set_datum (Some td) newCartesian))))))))"
  by pat_completeness auto
termination
  by (relation "measure (\<lambda>(WGS84, this, toDatum). if toDatum = Some WGS84 then 0 else 1)")
    (auto split: if_splits option.splits)

declare convertDatum_in.simps [simp del]

text \<open>The method as the module has it, with its own \<^verbatim>\<open>datums.WGS84\<close>.\<close>

definition convertDatum :: "cartesian_datum \<Rightarrow> datum option \<Rightarrow> error + cartesian_datum" where
  "convertDatum this toDatum = convertDatum_in datums_WGS84 this toDatum"

text \<open>Assigning the target datum to the result of a transform (lines 203 and 204).\<close>

definition then_set_datum ::
  "datum \<Rightarrow> error + cartesian_datum \<Rightarrow> error + cartesian_datum" where
  "then_set_datum td r =
     (case r of Inl e \<Rightarrow> Inl e | Inr c \<Rightarrow> Cartesian_Datum_set_datum (Some td) c)"

section \<open>Reference frames and the 14-parameter transform (class \<^verbatim>\<open>Cartesian_ReferenceFrame\<close>)\<close>

text \<open>A reference frame has a name, a reference epoch, which the code tests against
  \<^verbatim>\<open>undefined\<close>, and an ellipsoid.\<close>

record referenceFrame =
  rf_name :: string
  rf_epoch :: "jsnum option"
  rf_ellipsoid :: ellipsoid

text \<open>
  The table \<^verbatim>\<open>txParams\<close> is imported from a file that is not part of the sources: it is
  a parameter of the conversion. Its keys \<^verbatim>\<open>'A\<rightarrow>B'\<close> are kept as the pairs \<open>(A, B)\<close>, in
  the order of \<^verbatim>\<open>Object.keys\<close>.
\<close>

record txParam =
  tx_epoch :: jsnum
  tx_params :: "jsnum list"
  tx_rates :: "jsnum list"

type_synonym txParams = "((string \<times> string) \<times> txParam) list"

record cartesian_rf = vector3d +
  crf_referenceFrame :: "referenceFrame option"
  crf_epoch :: "jsnum option"

definition new_Cartesian_ReferenceFrame ::
  "jsnum \<Rightarrow> jsnum \<Rightarrow> jsnum \<Rightarrow> referenceFrame option \<Rightarrow> jsnum option \<Rightarrow> error + cartesian_rf" where
  "new_Cartesian_ReferenceFrame x y z referenceFrame epoch =
     (if (case referenceFrame of Some rf \<Rightarrow> rf_epoch rf = None | None \<Rightarrow> False)
      then Inl TypeError
      else if (case epoch of Some e \<Rightarrow> isNaN e | None \<Rightarrow> False) then Inl TypeError
      else (case new_Vector3d x y z of
              Inl e \<Rightarrow> Inl e
            | Inr v \<Rightarrow>
                Inr \<lparr>v_x = v_x v, v_y = v_y v, v_z = v_z v, crf_referenceFrame = referenceFrame,
                     crf_epoch = (case epoch of Some e \<Rightarrow> if truthy e then Some e else None
                                  | None \<Rightarrow> None)\<rparr>))"

text \<open>The getter \<^verbatim>\<open>epoch\<close>:
  \<^verbatim>\<open>this._epoch ? this._epoch : (this._referenceFrame ? this._referenceFrame.epoch : undefined)\<close>.\<close>

definition crf_get_epoch :: "cartesian_rf \<Rightarrow> jsnum option" where
  "crf_get_epoch this =
     (if (case crf_epoch this of Some e \<Rightarrow> truthy e | None \<Rightarrow> False) then crf_epoch this
      else (case crf_referenceFrame this of Some rf \<Rightarrow> rf_epoch rf | None \<Rightarrow> None))"

text \<open>The setters \<^verbatim>\<open>referenceFrame\<close> and \<^verbatim>\<open>epoch\<close>. \<^verbatim>\<open>Number(undefined)\<close> is NaN; reading
  \<^verbatim>\<open>this._referenceFrame.epoch\<close> without a reference frame is a TypeError of the
  language; \<^verbatim>\<open>!=\<close> between an undefined and a number is true.\<close>

definition crf_set_referenceFrame ::
  "referenceFrame option \<Rightarrow> cartesian_rf \<Rightarrow> error + cartesian_rf" where
  "crf_set_referenceFrame referenceFrame this =
     (case referenceFrame of
        None \<Rightarrow> Inl TypeError
      | Some rf \<Rightarrow>
          if rf_epoch rf = None then Inl TypeError
          else Inr (this\<lparr>crf_referenceFrame := Some rf\<rparr>))"

definition crf_set_epoch :: "jsnum option \<Rightarrow> cartesian_rf \<Rightarrow> error + cartesian_rf" where
  "crf_set_epoch epoch this =
     (case epoch of
        None \<Rightarrow> Inl TypeError
      | Some e \<Rightarrow>
          if isNaN e then Inl TypeError
          else (case crf_referenceFrame this of
                  None \<Rightarrow> Inl TypeError
                | Some rf \<Rightarrow>
                    if (case (crf_epoch this, rf_epoch rf) of
                          (None, None) \<Rightarrow> False
                        | (Some e1, Some e2) \<Rightarrow> js_ne e1 e2
                        | _ \<Rightarrow> True)
                    then Inr (this\<lparr>crf_epoch := Some e\<rparr>)
                    else Inr this))"

text \<open>\<^verbatim>\<open>applyTransform(params, rates, \<delta>t)\<close> of \<^verbatim>\<open>Cartesian_ReferenceFrame\<close>.\<close>

definition applyTransform14 ::
  "cartesian_rf \<Rightarrow> jsnum list \<Rightarrow> jsnum list \<Rightarrow> jsnum \<Rightarrow> error + cartesian_rf" where
  "applyTransform14 this params rates \<delta>t =
     (let x1 = v_x this; y1 = v_y this; z1 = v_z this;
          tx = item params 0 / Fin 1000;
          ty = item params 1 / Fin 1000;
          tz = item params 2 / Fin 1000;
          s = item params 3 / Fin (10 ^ 9);
          rx = toRadians (item params 4 / Fin 3600 / Fin 1000);
          ry = toRadians (item params 5 / Fin 3600 / Fin 1000);
          rz = toRadians (item params 6 / Fin 3600 / Fin 1000);
          tx' = item rates 0 / Fin 1000;
          ty' = item rates 1 / Fin 1000;
          tz' = item rates 2 / Fin 1000;
          s' = item rates 3 / Fin (10 ^ 9);
          rx' = toRadians (item rates 4 / Fin 3600 / Fin 1000);
          ry' = toRadians (item rates 5 / Fin 3600 / Fin 1000);
          rz' = toRadians (item rates 6 / Fin 3600 / Fin 1000);
          Tx = tx + tx' * \<delta>t; Ty = ty + ty' * \<delta>t; Tz = tz + tz' * \<delta>t;
          Rx = rx + rx' * \<delta>t; Ry = ry + ry' * \<delta>t; Rz = rz + rz' * \<delta>t;
          S = Fin 1 + s + s' * \<delta>t;
          x2 = Tx + x1 * S - y1 * Rz + z1 * Ry;
          y2 = Ty + x1 * Rz + y1 * S - z1 * Rx;
          z2 = Tz - x1 * Ry + y1 * Rx + z1 * S
      in new_Cartesian_ReferenceFrame x2 y2 z2 None None)"

definition reverseTransform :: "txParam \<Rightarrow> txParam" where
  "reverseTransform tx =
     \<lparr>tx_epoch = tx_epoch tx, tx_params = map uminus (tx_params tx),
      tx_rates = map uminus (tx_rates tx)\<rparr>"

text \<open>The name that string concatenation gives an undefined intermediate frame, and the
  truth value of a possibly undefined string (the empty string is falsy).\<close>

definition name_or_undefined :: "string option \<Rightarrow> string" where
  "name_or_undefined n = (case n of None \<Rightarrow> ''undefined'' | Some s \<Rightarrow> s)"

definition truthy_name :: "string option \<Rightarrow> bool" where
  "truthy_name n = (case n of None \<Rightarrow> False | Some s \<Rightarrow> s \<noteq> [])"

text \<open>\<^verbatim>\<open>t = this.epoch || this.referenceFrame.epoch\<close>, as the number that the subtraction
  \<^verbatim>\<open>t - t0\<close> sees (undefined becomes NaN).\<close>

definition observation_epoch :: "cartesian_rf \<Rightarrow> referenceFrame \<Rightarrow> jsnum" where
  "observation_epoch this oldTrf =
     (case crf_get_epoch this of
        Some e \<Rightarrow> if truthy e then e else (case rf_epoch oldTrf of Some e' \<Rightarrow> e' | None \<Rightarrow> NaN)
      | None \<Rightarrow> (case rf_epoch oldTrf of Some e' \<Rightarrow> e' | None \<Rightarrow> NaN))"

text \<open>The transform or the two chained transforms of \<^verbatim>\<open>convertReferenceFrame\<close> (lines 443
  to 470). Reversing or using an undefined transform is a TypeError of the language, as
  is every other failure of this part, so \<open>None\<close> stands for both.\<close>

definition transformed ::
  "txParams \<Rightarrow> cartesian_rf \<Rightarrow> referenceFrame \<Rightarrow> referenceFrame \<Rightarrow> error + cartesian_rf" where
  "transformed txParams this oldTrf newTrf =
     (let oldC = this;
          txFwd = map_of txParams (rf_name oldTrf, rf_name newTrf);
          txRev = map_of txParams (rf_name newTrf, rf_name oldTrf)
      in
        if txFwd \<noteq> None \<or> txRev \<noteq> None then
          (case (case txFwd of Some tx \<Rightarrow> Some tx | None \<Rightarrow> map_option reverseTransform txRev) of
             None \<Rightarrow> Inl TypeError
           | Some tx \<Rightarrow>
               (let t = observation_epoch this oldTrf;
                    t0 = tx_epoch tx
                in applyTransform14 oldC (tx_params tx) (tx_rates tx) (t - t0)))
        else
          (let keys = map fst txParams;
               txAvailFromOld = map snd (filter (\<lambda>tx. fst tx = rf_name oldTrf) keys);
               txAvailToNew = map fst (filter (\<lambda>tx. snd tx = rf_name newTrf) keys);
               txIntermediateFwd = List.find (\<lambda>tx. tx \<in> set txAvailToNew) txAvailFromOld;
               txAvailFromNew = map snd (filter (\<lambda>tx. fst tx = rf_name newTrf) keys);
               txAvailToOld = map fst (filter (\<lambda>tx. snd tx = rf_name oldTrf) keys);
               txIntermediateRev = List.find (\<lambda>tx. tx \<in> set txAvailToOld) txAvailFromNew;
               txFwd1 = map_of txParams (rf_name oldTrf, name_or_undefined txIntermediateFwd);
               txFwd2 = map_of txParams (name_or_undefined txIntermediateFwd, rf_name newTrf);
               txRev1 = map_of txParams (rf_name newTrf, name_or_undefined txIntermediateRev);
               txRev2 = map_of txParams (name_or_undefined txIntermediateRev, rf_name oldTrf);
               tx1 = (if truthy_name txIntermediateFwd then txFwd1
                      else map_option reverseTransform txRev2);
               tx2 = (if truthy_name txIntermediateFwd then txFwd2
                      else map_option reverseTransform txRev1);
               t = observation_epoch this oldTrf
           in
             (case tx1 of
                None \<Rightarrow> Inl TypeError
              | Some t1 \<Rightarrow>
                  (case tx2 of
                     None \<Rightarrow> Inl TypeError
                   | Some t2 \<Rightarrow>
                       (case applyTransform14 oldC (tx_params t1) (tx_rates t1) (t - tx_epoch t1) of
                          Inl e \<Rightarrow> Inl e
                        | Inr newC \<Rightarrow>
                            applyTransform14 newC (tx_params t2) (tx_rates t2)
                              (t - tx_epoch t2))))))"

text \<open>\<^verbatim>\<open>convertReferenceFrame(toReferenceFrame)\<close> of \<^verbatim>\<open>Cartesian_ReferenceFrame\<close>.\<close>

definition convertReferenceFrame ::
  "txParams \<Rightarrow> cartesian_rf \<Rightarrow> referenceFrame option \<Rightarrow> error + cartesian_rf" where
  "convertReferenceFrame txParams this toReferenceFrame =
     (case toReferenceFrame of
        None \<Rightarrow> Inl TypeError
      | Some newTrf \<Rightarrow>
          (if rf_epoch newTrf = None then Inl TypeError
           else
             (case crf_referenceFrame this of
                None \<Rightarrow> Inl TypeError
              | Some oldTrf \<Rightarrow>
                  (if rf_name oldTrf = rf_name newTrf then Inr this
                   else if prefix ''ITRF'' (rf_name oldTrf) \<and> prefix ''WGS84'' (rf_name newTrf)
                     then Inr this
                   else if prefix ''WGS84'' (rf_name oldTrf) \<and> prefix ''ITRF'' (rf_name newTrf)
                     then Inr this
                   else
                     (case transformed txParams this oldTrf newTrf of
                        Inl e \<Rightarrow> Inl e
                      | Inr newC \<Rightarrow>
                          (case crf_set_referenceFrame toReferenceFrame newC of
                             Inl e \<Rightarrow> Inl e
                           | Inr newC' \<Rightarrow> crf_set_epoch (crf_get_epoch this) newC'))))))"

text \<open>Frames of the table \<^verbatim>\<open>referenceFrames\<close> (lines 246 and 252), used in examples.\<close>

definition ellipsoids_GRS80 :: ellipsoid where
  "ellipsoids_GRS80 =
     \<lparr>ell_a = Fin 6378137, ell_b = Fin 6356752.314140, ell_f = Fin 1 / Fin 298.257222101\<rparr>"

definition ITRF2014 :: referenceFrame where
  "ITRF2014 = \<lparr>rf_name = ''ITRF2014'', rf_epoch = Some (Fin 2010), rf_ellipsoid = ellipsoids_GRS80\<rparr>"

definition WGS84g1762 :: referenceFrame where
  "WGS84g1762 =
     \<lparr>rf_name = ''WGS84g1762'', rf_epoch = Some (Fin 2005), rf_ellipsoid = ellipsoids_WGS84\<rparr>"

section \<open>The callers of the inverse solution (class \<^verbatim>\<open>LatLonEllipsoidal_Vincenty\<close>, Visual Basic)\<close>

text \<open>
  The function \<^verbatim>\<open>Inverse\<close> is not part of the sources: it is a parameter of its callers,
  a function from two points to its result or to the exception it throws.
\<close>

record inverse_result =
  ir_distance :: jsnum
  ir_initialBearing :: jsnum
  ir_finalBearing :: jsnum
  ir_iterations :: nat

type_synonym inverse_fn = "latlon \<Rightarrow> latlon \<Rightarrow> error + inverse_result"

text \<open>\<^verbatim>\<open>Math.Round(value, digits)\<close>: to the nearest multiple of \<open>10\<^sup>-\<^sup>d\<close>, a tie to the even
  one; NaN and the infinities are returned as they are.\<close>

fun Math_Round :: "jsnum \<Rightarrow> nat \<Rightarrow> jsnum" where
  "Math_Round (Fin r) digits = Fin (of_int (round_half_even (r * 10 ^ digits)) / 10 ^ digits)"
| "Math_Round v digits = v"

text \<open>\<^verbatim>\<open>DistanceTo\<close>, \<^verbatim>\<open>InitialBearingTo\<close> and \<^verbatim>\<open>FinalBearingTo\<close>: the \<^verbatim>\<open>Catch\<close> block returns
  NaN for an \<^verbatim>\<open>EvalError\<close> and throws any other exception again.\<close>

definition DistanceTo :: "inverse_fn \<Rightarrow> latlon \<Rightarrow> latlon \<Rightarrow> error + jsnum" where
  "DistanceTo Inverse this point =
     (case Inverse this point of
        Inr r \<Rightarrow> (let dist = ir_distance r in Inr (Math_Round dist 3))
      | Inl e \<Rightarrow> if e = EvalError then Inr NaN else Inl e)"

definition InitialBearingTo :: "inverse_fn \<Rightarrow> latlon \<Rightarrow> latlon \<Rightarrow> error + jsnum" where
  "InitialBearingTo Inverse this point =
     (case Inverse this point of
        Inr r \<Rightarrow> (let brng = ir_initialBearing r in Inr (Math_Round brng 7))
      | Inl e \<Rightarrow> if e = EvalError then Inr NaN else Inl e)"

definition FinalBearingTo :: "inverse_fn \<Rightarrow> latlon \<Rightarrow> latlon \<Rightarrow> error + jsnum" where
  "FinalBearingTo Inverse this point =
     (case Inverse this point of
        Inr r \<Rightarrow> (let brng = ir_finalBearing r in Inr (Math_Round brng 7))
      | Inl e \<Rightarrow> if e = EvalError then Inr NaN else Inl e)"

section \<open>Facts about numbers\<close>

lemma fmod_nonneg:
  fixes x y :: real
  assumes "0 < y" "0 \<le> x"
  shows "0 \<le> fmod x y" "fmod x y < y"
proof -
  have q: "0 \<le> x / y" using assms by simp
  have t: "trunc (x / y) = \<lfloor>x / y\<rfloor>" using q by (simp add: trunc_def)
  have "of_int \<lfloor>x / y\<rfloor> \<le> x / y" by simp
  then have "of_int \<lfloor>x / y\<rfloor> * y \<le> x" using assms(1) by (simp only: pos_le_divide_eq)
  then show "0 \<le> fmod x y" by (simp add: fmod_def t mult.commute)
  have "x / y < of_int \<lfloor>x / y\<rfloor> + 1" by linarith
  then have "x < (of_int \<lfloor>x / y\<rfloor> + 1) * y" using assms(1) by (simp only: pos_divide_less_eq)
  then show "fmod x y < y" by (simp add: fmod_def t algebra_simps)
qed

lemma fmod_neg:
  fixes x y :: real
  assumes "0 < y" "x < 0"
  shows "- y < fmod x y" "fmod x y \<le> 0"
proof -
  have q: "x / y < 0" using assms by (simp add: field_simps)
  have t: "trunc (x / y) = \<lceil>x / y\<rceil>" using q by (simp add: trunc_def)
  have "x / y \<le> of_int \<lceil>x / y\<rceil>" by simp
  then have "x \<le> of_int \<lceil>x / y\<rceil> * y" using assms(1) by (simp only: pos_divide_le_eq)
  then show "fmod x y \<le> 0" by (simp add: fmod_def t mult.commute)
  have "of_int \<lceil>x / y\<rceil> - 1 < x / y" by linarith
  then have "(of_int \<lceil>x / y\<rceil> - 1) * y < x" using assms(1) by (simp only: pos_less_divide_eq)
  then show "- y < fmod x y" by (simp add: fmod_def t algebra_simps)
qed

text \<open>The idiom \<^verbatim>\<open>((x % n) + n) % n\<close> is the modulo: it lies in \<open>[0, n)\<close>.\<close>

lemma modulo_range:
  fixes x y :: real
  assumes "0 < y"
  shows "0 \<le> fmod (fmod x y + y) y \<and> fmod (fmod x y + y) y < y"
proof -
  have "- y < fmod x y"
  proof (cases "0 \<le> x")
    case True
    then show ?thesis using fmod_nonneg(1)[OF assms, of x] assms by linarith
  next
    case False
    then show ?thesis using fmod_neg(1)[OF assms, of x] by simp
  qed
  then have "0 \<le> fmod x y + y" by simp
  then show ?thesis using fmod_nonneg[OF assms] by blast
qed

lemma fmod_range:
  fixes x y :: real
  assumes "0 < y"
  shows "- y < fmod x y" "fmod x y < y"
proof -
  show "- y < fmod x y"
  proof (cases "0 \<le> x")
    case True
    from fmod_nonneg(1)[OF assms True] assms show ?thesis by linarith
  next
    case False
    then have "x < 0" by simp
    from fmod_neg(1)[OF assms this] show ?thesis .
  qed
  show "fmod x y < y"
  proof (cases "0 \<le> x")
    case True
    from fmod_nonneg(2)[OF assms True] show ?thesis .
  next
    case False
    then have "x < 0" by simp
    from fmod_neg(2)[OF assms this] assms show ?thesis by linarith
  qed
qed

lemma isNaN_iff: "isNaN x \<longleftrightarrow> x = NaN"
  by (cases x) simp_all

lemma isFinite_iff: "isFinite x \<longleftrightarrow> (\<exists>r. x = Fin r)"
  by (cases x) simp_all

lemma js_eq_zero_iff: "js_eq x (Fin 0) \<longleftrightarrow> x = Fin 0"
  by (cases x) (simp_all add: js_eq_def)

lemma js_ne_zero_iff: "js_ne x (Fin 0) \<longleftrightarrow> x \<noteq> Fin 0"
  by (simp add: js_ne_def js_eq_zero_iff)

lemma uminus_NaN: "- x = NaN \<longleftrightarrow> x = NaN"
  by (cases x) simp_all

lemma plus_not_NaN: "x + y \<noteq> NaN \<Longrightarrow> x \<noteq> NaN \<and> y \<noteq> NaN"
  by (cases x; cases y) simp_all

lemma minus_not_NaN: "x - y \<noteq> NaN \<Longrightarrow> x \<noteq> NaN \<and> y \<noteq> NaN"
  unfolding minus_jsnum_def by (auto dest!: plus_not_NaN simp: uminus_NaN)

lemma times_not_NaN: "x * y \<noteq> NaN \<Longrightarrow> x \<noteq> NaN \<and> y \<noteq> NaN"
  by (cases x; cases y) simp_all

lemma divide_not_NaN: "x / y \<noteq> NaN \<Longrightarrow> x \<noteq> NaN \<and> y \<noteq> NaN"
  by (cases x; cases y) simp_all

lemma sqrt_not_NaN: "Math_sqrt x \<noteq> NaN \<Longrightarrow> x \<noteq> NaN"
  by (cases x) simp_all

lemma atan2_not_NaN: "Math_atan2 y x \<noteq> NaN \<Longrightarrow> y \<noteq> NaN \<and> x \<noteq> NaN"
  by (cases x; cases y) simp_all

lemma toDegrees_not_NaN: "toDegrees x \<noteq> NaN \<Longrightarrow> x \<noteq> NaN"
  unfolding toDegrees_def by (auto dest!: divide_not_NaN times_not_NaN)

lemma toDegrees_Fin: "toDegrees (Fin r) = Fin (r * 180 / pi)"
  by (simp add: toDegrees_def)

lemma atan2_range: "- pi \<le> atan2 y x \<and> atan2 y x \<le> pi"
proof -
  have b: "- (pi / 2) < arctan (y / x)" "arctan (y / x) < pi / 2"
    by (rule arctan_lbound, rule arctan_ubound)
  have "x < 0 \<Longrightarrow> 0 \<le> y \<Longrightarrow> arctan (y / x) \<le> 0"
    by (simp add: divide_nonneg_neg)
  moreover have "x < 0 \<Longrightarrow> y < 0 \<Longrightarrow> 0 \<le> arctan (y / x)"
    by (simp add: divide_neg_neg less_imp_le)
  ultimately show ?thesis
    using b pi_gt_zero unfolding atan2_def by (auto simp: field_simps) 
qed

lemma Math_atan2_range:
  assumes "y \<noteq> NaN" "x \<noteq> NaN"
  shows "isFinite (Math_atan2 y x) \<and> Fin (- pi) \<le> Math_atan2 y x \<and> Math_atan2 y x \<le> Fin pi"
proof -
  have h: "- pi \<le> pi / 2" "- pi \<le> - (pi / 2)" "- (pi / 2) \<le> pi" "- pi \<le> pi / 4"
    "pi / 4 \<le> pi" "- pi \<le> - (pi / 4)" "- (pi / 4) \<le> pi" "- pi \<le> 3 * pi / 4"
    "3 * pi / 4 \<le> pi" "- pi \<le> - (3 * pi / 4)" "- (3 * pi / 4) \<le> pi"
    using pi_gt_zero by linarith+
  show ?thesis
    using assms h atan2_range by (cases x; cases y) simp_all
qed

section \<open>Rounding to binary64\<close>

text \<open>Rounding to the nearest integer is monotone and odd, and keeps integers.\<close>

lemma rhe_of_int [simp]: "round_half_even (of_int n) = n"
  by (simp add: round_half_even_def)

lemma rhe_bounds: "of_int \<lfloor>x\<rfloor> \<le> (of_int (round_half_even x) :: real)" "round_half_even x \<le> \<lfloor>x\<rfloor> + 1"
  by (simp_all add: round_half_even_def Let_def)

lemma rhe_mono: "x \<le> y \<Longrightarrow> round_half_even x \<le> round_half_even y"
proof -
  assume xy: "x \<le> y"
  then have f: "\<lfloor>x\<rfloor> \<le> \<lfloor>y\<rfloor>" by (rule floor_mono)
  show ?thesis
  proof (cases "\<lfloor>x\<rfloor> = \<lfloor>y\<rfloor>")
    case True
    then show ?thesis using xy by (auto simp: round_half_even_def Let_def)
  next
    case False
    then have "\<lfloor>x\<rfloor> + 1 \<le> \<lfloor>y\<rfloor>" using f by simp
    moreover have "round_half_even x \<le> \<lfloor>x\<rfloor> + 1" by (rule rhe_bounds)
    moreover have "\<lfloor>y\<rfloor> \<le> round_half_even y" by (simp add: round_half_even_def Let_def)
    ultimately show ?thesis by linarith
  qed
qed

lemma rhe_uminus: "round_half_even (- x) = - round_half_even x"
proof (cases "x \<in> \<int>")
  case True
  then obtain n where "x = of_int n" by (auto elim: Ints_cases)
  then show ?thesis by (simp flip: of_int_minus)
next
  case False
  then have "x \<noteq> of_int \<lfloor>x\<rfloor>" by (metis Ints_of_int)
  then have "of_int \<lfloor>x\<rfloor> < x" using of_int_floor_le[of x] by linarith
  then have c: "\<lfloor>- x\<rfloor> = - \<lfloor>x\<rfloor> - 1"
    by (intro floor_unique) (simp, linarith, simp)
  show ?thesis
    unfolding round_half_even_def Let_def c
    by (auto simp: algebra_simps)
qed

lemma rhe_below:
  "\<lfloor>q\<rfloor> = n \<Longrightarrow> q - of_int n < 1 / 2 \<Longrightarrow> round_half_even q = n"
  by (simp add: round_half_even_def Let_def)

lemma rhe_above:
  "\<lfloor>q\<rfloor> = n \<Longrightarrow> 1 / 2 < q - of_int n \<Longrightarrow> round_half_even q = n + 1"
  by (simp add: round_half_even_def Let_def)

text \<open>Rounding to binary64 is monotone: within a binade because rounding to an
  integer is, and across binades because a power of two lies between.\<close>

lemma quantum_pos [simp]: "0 < quantum x"
  by (simp add: quantum_def)

lemma quantum_nonneg [simp]: "0 \<le> quantum x"
  by (simp add: quantum_def)

lemma quantum_neq_0 [simp]: "quantum x \<noteq> 0"
  by (simp add: quantum_def)

lemma quantum_uminus [simp]: "quantum (- x) = quantum x"
  by (simp add: quantum_def exponent64_def)

lemma nearest64_uminus: "nearest64 (- x) = - nearest64 x"
  by (simp add: nearest64_def rhe_uminus)

lemma nearest64_0 [simp]: "nearest64 0 = 0"
  using rhe_of_int[of 0] by (simp add: nearest64_def del: rhe_of_int)

lemma nearest64_nonneg: "0 \<le> x \<Longrightarrow> 0 \<le> nearest64 x"
proof -
  assume "0 \<le> x"
  then have "0 \<le> x / quantum x" by simp
  from rhe_mono[OF this] have "0 \<le> round_half_even (x / quantum x)"
    using rhe_of_int[of 0] by simp
  then show ?thesis by (simp add: nearest64_def)
qed

lemma exponent64_mono: "0 < x \<Longrightarrow> x \<le> y \<Longrightarrow> exponent64 x \<le> exponent64 y"
  unfolding exponent64_def
  by (intro diff_right_mono max.mono floor_mono) (simp_all add: log_le_cancel_iff)

lemma below_binade:
  assumes "0 < x"
  shows "x < 2 powr of_int (exponent64 x + 53)"
proof -
  have "log 2 x < of_int (\<lfloor>log 2 x\<rfloor> + 1)" by linarith
  also have "\<dots> \<le> of_int (exponent64 x + 53)"
    using assms unfolding exponent64_def by (intro of_int_le_iff[THEN iffD2]) simp
  finally have "2 powr log 2 x < 2 powr of_int (exponent64 x + 53)"
    by (simp only: powr_less_cancel_iff)
  then show ?thesis using assms by simp
qed

lemma above_binade:
  assumes "0 < x" "- 1074 < exponent64 x"
  shows "2 powr of_int (exponent64 x + 52) \<le> x"
proof -
  have "exponent64 x + 52 = \<lfloor>log 2 x\<rfloor>"
    using assms unfolding exponent64_def by (simp add: max_def split: if_splits)
  then have "of_int (exponent64 x + 52) \<le> log 2 x" by simp
  then have "2 powr of_int (exponent64 x + 52) \<le> 2 powr log 2 x"
    by (simp only: powr_le_cancel_iff)
  then show ?thesis using assms by simp
qed

lemma nearest64_le_binade:
  assumes "0 < x"
  shows "nearest64 x \<le> 2 powr of_int (exponent64 x + 53)"
proof -
  have "x / quantum x \<le> 2 powr of_int (exponent64 x + 53) / quantum x"
    using below_binade[OF assms] by (intro divide_right_mono) simp_all
  also have "\<dots> = 2 powr 53"
    by (simp add: quantum_def flip: powr_diff)
  also have "\<dots> = of_int (2 ^ 53)" by simp
  finally have "round_half_even (x / quantum x) \<le> 2 ^ 53"
    using rhe_mono rhe_of_int by metis
  then have "of_int (round_half_even (x / quantum x)) \<le> (2 powr 53 :: real)"
    by (metis \<open>2 powr 53 = of_int (2 ^ 53)\<close> of_int_le_iff)
  then have "nearest64 x \<le> 2 powr 53 * quantum x"
    unfolding nearest64_def by (intro mult_right_mono) simp_all
  also have "\<dots> = 2 powr of_int (exponent64 x + 53)"
    by (simp add: quantum_def powr_add)
  finally show ?thesis .
qed

lemma nearest64_ge_binade:
  assumes "0 < x" "- 1074 < exponent64 x"
  shows "2 powr of_int (exponent64 x + 52) \<le> nearest64 x"
proof -
  have "2 powr of_int (exponent64 x + 52) / quantum x \<le> x / quantum x"
    using above_binade[OF assms] by (intro divide_right_mono) simp_all
  moreover have "2 powr of_int (exponent64 x + 52) / quantum x = 2 powr 52"
    by (simp add: quantum_def flip: powr_diff)
  moreover have e: "(2 powr 52 :: real) = of_int (2 ^ 52)" by simp
  ultimately have "2 ^ 52 \<le> round_half_even (x / quantum x)"
    using rhe_mono rhe_of_int by metis
  then have "(2 powr 52 :: real) \<le> of_int (round_half_even (x / quantum x))"
    by (metis e of_int_le_iff)
  then have "2 powr 52 * quantum x \<le> nearest64 x"
    unfolding nearest64_def by (intro mult_right_mono) simp_all
  moreover have "2 powr 52 * quantum x = 2 powr of_int (exponent64 x + 52)"
    by (simp add: quantum_def powr_add)
  ultimately show ?thesis by simp
qed

lemma nearest64_mono_pos:
  assumes "0 < x" "x \<le> y"
  shows "nearest64 x \<le> nearest64 y"
proof (cases "exponent64 x = exponent64 y")
  case True
  then have q: "quantum x = quantum y" by (simp add: quantum_def)
  have "x / quantum y \<le> y / quantum y" using assms by (intro divide_right_mono) simp_all
  from rhe_mono[OF this] show ?thesis
    unfolding nearest64_def q by (intro mult_right_mono) simp_all
next
  case False
  then have lt: "exponent64 x + 1 \<le> exponent64 y"
    using exponent64_mono[OF assms] by simp
  have "- 1074 \<le> exponent64 x" by (simp add: exponent64_def)
  then have n: "- 1074 < exponent64 y" using lt by simp
  have y: "0 < y" using assms by simp
  have "nearest64 x \<le> 2 powr of_int (exponent64 x + 53)"
    by (rule nearest64_le_binade[OF assms(1)])
  also have "\<dots> \<le> 2 powr of_int (exponent64 y + 52)"
    using lt by simp
  also have "\<dots> \<le> nearest64 y" by (rule nearest64_ge_binade[OF y n])
  finally show ?thesis .
qed

lemma nearest64_mono:
  assumes "x \<le> y"
  shows "nearest64 x \<le> nearest64 y"
proof -
  consider "0 < x" | "x \<le> 0" "0 \<le> y" | "y < 0" by linarith
  then show ?thesis
  proof cases
    case 1
    then show ?thesis using assms by (rule nearest64_mono_pos)
  next
    case 2
    have "0 \<le> nearest64 (- x)" using 2 by (intro nearest64_nonneg) simp
    then have "nearest64 x \<le> 0" by (simp add: nearest64_uminus)
    also have "0 \<le> nearest64 y" using 2 by (intro nearest64_nonneg)
    finally show ?thesis .
  next
    case 3
    then have "nearest64 (- y) \<le> nearest64 (- x)"
      using assms by (intro nearest64_mono_pos) simp_all
    then show ?thesis by (simp add: nearest64_uminus)
  qed
qed

text \<open>A number \<open>m \<sqdot> 2\<^sup>k\<close> with \<open>|m| < 2\<^sup>5\<^sup>3\<close> and \<open>k \<ge> -1074\<close> is not changed.\<close>

lemma representable:
  assumes "\<bar>m\<bar> < 2 ^ 53" "- 1074 \<le> k"
  shows "nearest64 (of_int m * 2 powr of_int k) = of_int m * 2 powr of_int k"
proof (cases "m = 0")
  case True
  then show ?thesis by simp
next
  case False
  define x :: real where "x = of_int m * 2 powr of_int k"
  have "1 \<le> \<bar>m\<bar>" using False by simp
  then have "real_of_int 1 \<le> real_of_int \<bar>m\<bar>" by (simp only: of_int_le_iff)
  then have m1: "1 \<le> \<bar>real_of_int m\<bar>" by simp
  have ax: "\<bar>x\<bar> = \<bar>of_int m\<bar> * 2 powr of_int k" by (simp add: x_def abs_mult)
  have "real_of_int \<bar>m\<bar> < real_of_int (2 ^ 53)" using assms(1) by (simp only: of_int_less_iff)
  then have "\<bar>real_of_int m\<bar> < 2 powr 53" by simp
  then have "log 2 \<bar>real_of_int m\<bar> < 53"
    using m1 by (subst log_less_iff) simp_all
  then have "log 2 \<bar>x\<bar> < 53 + of_int k"
    using m1 False unfolding ax by (subst log_mult) simp_all
  then have "\<lfloor>log 2 \<bar>x\<bar>\<rfloor> < 53 + k" by (simp add: floor_less_iff)
  then have e: "exponent64 x \<le> k" using assms(2) by (simp add: exponent64_def)
  define d where "d = nat (k - exponent64 x)"
  have "(2::real) powr of_int k = 2 powr of_int (exponent64 x) * 2 powr of_int (int d)"
    using e by (simp add: d_def flip: powr_add)
  also have "(2::real) powr of_int (int d) = 2 ^ d" by (simp add: powr_realpow)
  finally have k: "(2::real) powr of_int k = quantum x * 2 ^ d"
    by (simp only: quantum_def)
  from x_def have "x = of_int m * (quantum x * 2 ^ d)"
    by (simp only: k)
  then have "x / quantum x = of_int m * (quantum x * 2 ^ d) / quantum x"
    by simp
  also have "\<dots> = of_int (m * 2 ^ d)"
    by simp
  finally have "x / quantum x = of_int (m * 2 ^ d)" .
  then have "nearest64 x = x / quantum x * quantum x"
    unfolding nearest64_def by (simp only: rhe_of_int)
  then show ?thesis by (simp add: x_def)
qed

lemma nearest64_of_int:
  "\<bar>n\<bar> < 2 ^ 53 \<Longrightarrow> nearest64 (of_int n) = of_int n"
  using representable[of n 0] by simp

lemma power_representable:
  "k \<le> 2000 \<Longrightarrow> nearest64 (2 ^ k) = 2 ^ k" "k \<le> 2000 \<Longrightarrow> nearest64 (- (2 ^ k)) = - (2 ^ k)"
proof -
  have "nearest64 (of_int 1 * 2 powr of_int (int k)) = of_int 1 * 2 powr of_int (int k)"
    by (rule representable) simp_all
  then show "nearest64 (2 ^ k) = 2 ^ k" by (simp add: powr_realpow)
  then show "nearest64 (- (2 ^ k)) = - (2 ^ k)" by (simp add: nearest64_uminus)
qed

lemma round64_between:
  assumes "l \<le> x" "x \<le> h" "nearest64 l = l" "nearest64 h = h" "- (2 ^ 1024) < l" "h < 2 ^ 1024"
  shows "\<exists>r. round64 x = Fin r \<and> l \<le> r \<and> r \<le> h"
proof -
  have "l \<le> nearest64 x" "nearest64 x \<le> h"
    using nearest64_mono[OF assms(1)] nearest64_mono[OF assms(2)] assms(3,4) by simp_all
  then show ?thesis using assms(5,6) by (simp add: round64_def Let_def)
qed

lemma round64_bounded:
  assumes "\<bar>x\<bar> \<le> 2 ^ k" "k < 1024"
  shows "\<exists>r. round64 x = Fin r \<and> \<bar>r\<bar> \<le> 2 ^ k"
proof -
  have p: "(2::real) ^ k < 2 ^ 1024" using assms(2) by (intro power_strict_increasing) simp_all
  have "\<exists>r. round64 x = Fin r \<and> - (2 ^ k) \<le> r \<and> r \<le> 2 ^ k"
    using assms p by (intro round64_between power_representable) simp_all
  then show ?thesis by (auto simp: abs_le_iff)
qed

lemma round64_Fin_less:
  "round64 x = Fin r \<Longrightarrow> \<bar>r\<bar> < 2 ^ 1024"
  by (auto simp: round64_def Let_def split: if_splits)

lemma round64_of_int:
  "\<bar>n\<bar> < 2 ^ 53 \<Longrightarrow> round64 (of_int n) = Fin (of_int n)"
proof -
  assume n: "\<bar>n\<bar> < 2 ^ 53"
  then have "\<bar>real_of_int n\<bar> < 2 ^ 53"
    by (metis of_int_abs of_int_less_numeral_power_cancel_iff)
  moreover have "(2::real) ^ 53 < 2 ^ 1024" by (intro power_strict_increasing) simp_all
  ultimately have "\<bar>real_of_int n\<bar> < 2 ^ 1024" by linarith
  then show ?thesis using nearest64_of_int[OF n] by (simp add: round64_def Let_def abs_less_iff not_le)
qed

lemma round64_numeral [simp]:
  "numeral k < (2::int) ^ 53 \<Longrightarrow> round64 (numeral k) = Fin (numeral k)"
  "numeral k < (2::int) ^ 53 \<Longrightarrow> round64 (- numeral k) = Fin (- numeral k)"
  "round64 0 = Fin 0" "round64 1 = Fin 1" "round64 (- 1) = Fin (- 1)"
  using round64_of_int[of "numeral k"] round64_of_int[of "- numeral k"]
    round64_of_int[of 0] round64_of_int[of 1] round64_of_int[of "- 1"]
  by simp_all






text \<open>Rounding within a binade, and two numbers near \<open>2\<^sup>6\<^sup>0\<close> (where the quantum is
  128) that are rounded down and up.\<close>

lemma quantum_binade:
  assumes "2 ^ k \<le> x" "x < 2 ^ Suc k" "52 \<le> k"
  shows "quantum x = 2 ^ (k - 52)"
proof -
  have x: "0 < x" using assms(1) by (meson less_le_trans zero_less_numeral zero_less_power)
  have "2 powr of_int (int k) \<le> x" "x < 2 powr of_int (int k + 1)"
    using assms(1,2) by (simp_all add: powr_realpow powr_add)
  then have "\<lfloor>log 2 \<bar>x\<bar>\<rfloor> = int k"
    using x by (intro floor_unique) (simp_all add: le_log_iff log_less_iff)
  then have "exponent64 x = int (k - 52)"
    using assms(3) by (simp add: exponent64_def)
  then show ?thesis by (simp add: quantum_def powr_realpow)
qed

lemma nearest64_binade:
  assumes "2 ^ k \<le> x" "x < 2 ^ Suc k" "52 \<le> k" "round_half_even (x / 2 ^ (k - 52)) = n"
  shows "nearest64 x = of_int n * 2 ^ (k - 52)"
  unfolding nearest64_def quantum_binade[OF assms(1-3)] assms(4) ..

lemma round64_rounds_down: "round64 (2 ^ 60 - 90) = Fin (2 ^ 60 - 128)"
proof -
  have "\<lfloor>(2 ^ 60 - 90) / 2 ^ (59 - 52) :: real\<rfloor> = 2 ^ 53 - 1" by simp
  then have "round_half_even ((2 ^ 60 - 90) / 2 ^ (59 - 52)) = 2 ^ 53 - 1"
    by (rule rhe_below) simp
  then have "nearest64 (2 ^ 60 - 90) = of_int (2 ^ 53 - 1) * 2 ^ (59 - 52)"
    by (intro nearest64_binade) simp_all
  then show ?thesis by (simp add: round64_def)
qed

lemma round64_rounds_up: "round64 (2 ^ 60 - 180) = Fin (2 ^ 60 - 128)"
proof -
  have "\<lfloor>(2 ^ 60 - 180) / 2 ^ (59 - 52) :: real\<rfloor> = 2 ^ 53 - 2" by simp
  then have "round_half_even ((2 ^ 60 - 180) / 2 ^ (59 - 52)) = 2 ^ 53 - 2 + 1"
    by (rule rhe_above) simp
  then have "nearest64 (2 ^ 60 - 180) = of_int (2 ^ 53 - 2 + 1) * 2 ^ (59 - 52)"
    by (intro nearest64_binade) simp_all
  then show ?thesis by (simp add: round64_def)
qed

lemma round64_exact_examples:
  "round64 (360 * 2 ^ 60) = Fin (360 * 2 ^ 60)" "round64 (2 ^ 60) = Fin (2 ^ 60)"
proof -
  have "(360 * 2 ^ 60 :: real) \<in> \<int>" "(2 ^ 60 :: real) \<in> \<int>" by simp_all
  have a: "nearest64 (of_int 45 * 2 powr of_int 63) = of_int 45 * 2 powr of_int 63"
    by (rule representable) simp_all
  have b: "nearest64 (of_int 1 * 2 powr of_int 60) = of_int 1 * 2 powr of_int 60"
    by (rule representable) simp_all
  show "round64 (360 * 2 ^ 60) = Fin (360 * 2 ^ 60)" "round64 (2 ^ 60) = Fin (2 ^ 60)"
    using a b by (simp_all add: round64_def)
qed

section \<open>Wrapping of latitude and longitude\<close>

lemma fmod_twice_modulo:
  fixes x n :: real
  assumes "0 < n"
  shows "fmod (fmod x n + n) n = floor_mod x n"
proof -
  define k where "k = trunc (x / n) + trunc ((fmod x n + n) / n) - 1"
  define r where "r = fmod (fmod x n + n) n"
  have r: "r = x - n * of_int k"
    unfolding r_def k_def fmod_def by (simp add: algebra_simps)
  have b: "0 \<le> r" "r < n"
    unfolding r_def using modulo_range[OF assms] by simp_all
  have "x / n = of_int k + r / n"
    using assms r by (simp add: field_simps)
  moreover have "0 \<le> r / n" "r / n < 1"
    using b assms by simp_all
  ultimately have "\<lfloor>x / n\<rfloor> = k"
    by (intro floor_unique) linarith+
  then show ?thesis
    using r unfolding r_def floor_mod_def by simp
qed

lemma modulo_bounds:
  fixes x n :: real
  assumes "0 < n"
  shows "0 \<le> floor_mod x n" "floor_mod x n < n"
  using modulo_range[OF assms, of x] fmod_twice_modulo[OF assms, of x] by simp_all

lemma triangle90_range: "- 90 \<le> triangle90 x \<and> triangle90 x \<le> 90"
  using modulo_bounds[of 360 "x - 90"] unfolding triangle90_def by auto

lemma sawtooth180_range: "- 180 \<le> sawtooth180 x \<and> sawtooth180 x < 180"
  using modulo_bounds[of 360 "x - 180"] unfolding sawtooth180_def by auto



lemma int_representable:
  "nearest64 0 = 0" "nearest64 90 = 90" "nearest64 180 = 180" "nearest64 360 = 360"
  "nearest64 720 = 720" "nearest64 (- 90) = - 90" "nearest64 (- 180) = - 180"
  using nearest64_of_int[of 90] nearest64_of_int[of 180] nearest64_of_int[of 360]
    nearest64_of_int[of 720] nearest64_of_int[of "- 90"] nearest64_of_int[of "- 180"]
  by simp_all

text \<open>The idiom \<^verbatim>\<open>((x % n) + n) % n\<close> on binary64 numbers: the sum is rounded, and the
  result still lies in \<open>[0, n)\<close>.\<close>

lemma modulo360_range:
  "\<exists>r. js_rem (js_add (js_rem (Fin x) (Fin 360)) (Fin 360)) (Fin 360) = Fin r \<and> 0 \<le> r \<and> r < 360"
proof -
  have "\<exists>r. round64 (fmod x 360 + 360) = Fin r \<and> 0 \<le> r \<and> r \<le> 720"
    using fmod_range[of 360 x] by (intro round64_between int_representable) simp_all
  then obtain r where r: "round64 (fmod x 360 + 360) = Fin r" "0 \<le> r" by blast
  then show ?thesis
    using fmod_nonneg[of 360 r] by (simp add: js_add_def)
qed




lemma wrap360_finite:
  assumes "js_mul (Fin 360) (Fin d) = Fin v"
  shows "\<exists>r. wrap360 (Fin d) = Fin r \<and> 0 \<le> r \<and> r < 360"
proof (cases "0 \<le> d \<and> d < 360")
  case True
  then show ?thesis by (simp add: wrap360_def)
next
  case False
  have v: "\<bar>v\<bar> < 2 ^ 1024" using assms by (auto simp: js_mul_def dest: round64_Fin_less)
  have "\<bar>v / 360\<bar> \<le> \<bar>v\<bar> / 256" by (simp add: field_simps)
  also have "\<dots> \<le> 2 ^ 1024 / 2 ^ 8" using v by simp
  also have "\<dots> = 2 ^ 1016" by (simp flip: power_diff)
  finally obtain w where w: "round64 (v / 360) = Fin w"
    using round64_bounded[of "v / 360" 1016] by auto
  have "wrap360 (Fin d) = js_rem (js_add (js_rem (Fin w) (Fin 360)) (Fin 360)) (Fin 360)"
    using False assms w
    by (auto simp: wrap360_def Let_def js_mul_def js_div_def)
  then show ?thesis using modulo360_range[of w] by simp
qed





lemma wrap_rounded:
  "wrap90 (Fin (2 ^ 60)) = Fin 82" "wrap180 (Fin (2 ^ 60)) = Fin (- 172)"
  "triangle90 (2 ^ 60) = 44" "sawtooth180 (2 ^ 60) = 136"
proof -
  show "wrap90 (Fin (2 ^ 60)) = Fin 82"
    using round64_rounds_down
    by (simp add: wrap90_def Let_def js_mul_def js_div_def js_sub_def js_add_def
        minus_jsnum_def fmod_def trunc_def)
  show "wrap180 (Fin (2 ^ 60)) = Fin (- 172)"
    using round64_rounds_up round64_exact_examples
    by (simp add: wrap180_def Let_def js_mul_def js_div_def js_sub_def js_add_def
        minus_jsnum_def fmod_def trunc_def)
  show "triangle90 (2 ^ 60) = 44" "sawtooth180 (2 ^ 60) = 136"
    by (simp_all add: triangle90_def sawtooth180_def floor_mod_def)
qed




text \<open>The setter rejects what the constructor lets through.\<close>

lemma setter_infinite:
  "set_lat PInf p = (Some TypeError, p\<lparr>ll_lat := NaN\<rparr>)"
  by (simp add: set_lat_def wrap90_def Let_def js_sub_def js_div_def js_add_def js_mul_def
      minus_jsnum_def)
section \<open>The loop of the direct solution\<close>

text \<open>The facts of this section hold in every arithmetic.\<close>

lemma sigma_pass_sel [simp]:
  "ss_\<sigma>' (sigma_pass ar s b A B \<sigma>1 \<sigma> i) = \<sigma>"
  "ss_iterations (sigma_pass ar s b A B \<sigma>1 \<sigma> i) = i"
  by (simp_all add: sigma_pass_def Let_def)

lemma sigma_pass_counter:
  "sigma_pass ar s b A B \<sigma>1 \<sigma> i = (sigma_pass ar s b A B \<sigma>1 \<sigma> 0)\<lparr>ss_iterations := i\<rparr>"
  by (simp add: sigma_pass_def Let_def)

lemma sigma_pass_\<sigma>:
  "ss_\<sigma> (sigma_pass ar s b A B \<sigma>1 \<sigma> i) = ss_\<sigma> (sigma_pass ar s b A B \<sigma>1 \<sigma> 0)"
  by (simp add: sigma_pass_def Let_def)

lemma sigma_iter_shift:
  "sigma_iter ar s b A B \<sigma>1 (ss_\<sigma> (sigma_pass ar s b A B \<sigma>1 \<sigma>0 0)) n
     = sigma_iter ar s b A B \<sigma>1 \<sigma>0 (Suc n)"
  by (induction n) simp_all

lemma unconverged_shift:
  "unconverged ar s b A B \<sigma>1 (ss_\<sigma> (sigma_pass ar s b A B \<sigma>1 \<sigma>0 0)) n
     = unconverged ar s b A B \<sigma>1 \<sigma>0 (Suc n)"
  unfolding unconverged_def sigma_iter_shift ..

lemma unconverged_0:
  "unconverged ar s b A B \<sigma>1 \<sigma>0 0
     = (\<bar>ar_sub ar (ss_\<sigma> (sigma_pass ar s b A B \<sigma>1 \<sigma>0 0)) \<sigma>0\<bar> > ar_num ar (1 / 10 ^ 12))"
  by (simp add: unconverged_def)

text \<open>The loop entered with the counter at \<open>i\<close> either leaves after \<open>k + 1\<close> passes, the
  first of them that fails the test \<^verbatim>\<open>Math.abs(\<sigma> - \<sigma>') > 1e-12\<close>, with the counter at
  \<open>i + k < 100\<close>; or it makes \<open>100 - i\<close> passes that all pass the test, and leaves with the
  counter at 100. In both cases its state is that of the last pass.\<close>

lemma sigma_loop_char:
  "i < 100 \<Longrightarrow>
     (\<exists>k. k < 100 - i \<and> (\<forall>j<k. unconverged ar s b A B \<sigma>1 \<sigma> j) \<and> \<not> unconverged ar s b A B \<sigma>1 \<sigma> k
          \<and> sigma_loop ar s b A B \<sigma>1 \<sigma> i
              = (sigma_pass ar s b A B \<sigma>1 (sigma_iter ar s b A B \<sigma>1 \<sigma> k) 0)\<lparr>ss_iterations := i + k\<rparr>)
   \<or> ((\<forall>j<100 - i. unconverged ar s b A B \<sigma>1 \<sigma> j)
          \<and> sigma_loop ar s b A B \<sigma>1 \<sigma> i
              = (sigma_pass ar s b A B \<sigma>1 (sigma_iter ar s b A B \<sigma>1 \<sigma> (99 - i)) 0)\<lparr>ss_iterations := 100\<rparr>)"
proof (induction ar s b A B \<sigma>1 \<sigma> i rule: sigma_loop.induct)
  case (1 ar s b A B \<sigma>1 \<sigma> i)
  let ?st = "sigma_pass ar s b A B \<sigma>1 \<sigma> i"
  let ?P = "sigma_pass ar s b A B \<sigma>1 \<sigma> 0"
  let ?\<sigma>n = "ss_\<sigma> ?P"
  have stn: "ss_\<sigma> ?st = ?\<sigma>n" by (rule sigma_pass_\<sigma>)
  have st: "?st = ?P\<lparr>ss_iterations := i\<rparr>" by (rule sigma_pass_counter)
  show ?case
  proof (cases "unconverged ar s b A B \<sigma>1 \<sigma> 0")
    case False
    then have "sigma_loop ar s b A B \<sigma>1 \<sigma> i = ?st"
      by (subst sigma_loop.simps) (simp add: unconverged_0 Let_def stn)
    then have "sigma_loop ar s b A B \<sigma>1 \<sigma> i
        = (sigma_pass ar s b A B \<sigma>1 (sigma_iter ar s b A B \<sigma>1 \<sigma> 0) 0)\<lparr>ss_iterations := i + 0\<rparr>"
      using st by simp
    with False "1.prems" show ?thesis
      by (intro disjI1 exI[of _ 0]) simp
  next
    case True
    then have test: "\<bar>ar_sub ar (ss_\<sigma> ?st) (ss_\<sigma>' ?st)\<bar> > ar_num ar (1 / 10 ^ 12)"
      by (simp add: unconverged_0 stn)
    show ?thesis
    proof (cases "Suc i < 100")
      case False
      with "1.prems" have i: "i = 99" by simp
      have "sigma_loop ar s b A B \<sigma>1 \<sigma> i = ?st\<lparr>ss_iterations := Suc i\<rparr>"
        using test False by (subst sigma_loop.simps) (simp add: Let_def)
      also have "\<dots> = ?P\<lparr>ss_iterations := 100\<rparr>"
        by (subst st) (simp add: i)
      finally have "sigma_loop ar s b A B \<sigma>1 \<sigma> i
          = (sigma_pass ar s b A B \<sigma>1 (sigma_iter ar s b A B \<sigma>1 \<sigma> (99 - i)) 0)\<lparr>ss_iterations := 100\<rparr>"
        by (simp add: i)
      moreover have "\<forall>j<100 - i. unconverged ar s b A B \<sigma>1 \<sigma> j"
        using True i by simp
      ultimately show ?thesis
        by (intro disjI2) simp
    next
      case Suc: True
      have eq: "sigma_loop ar s b A B \<sigma>1 \<sigma> i = sigma_loop ar s b A B \<sigma>1 ?\<sigma>n (Suc i)"
        using test Suc by (subst sigma_loop.simps) (simp add: Let_def stn)
      have IH: "(\<exists>k. k < 100 - Suc i \<and> (\<forall>j<k. unconverged ar s b A B \<sigma>1 ?\<sigma>n j)
            \<and> \<not> unconverged ar s b A B \<sigma>1 ?\<sigma>n k
            \<and> sigma_loop ar s b A B \<sigma>1 ?\<sigma>n (Suc i)
                = (sigma_pass ar s b A B \<sigma>1 (sigma_iter ar s b A B \<sigma>1 ?\<sigma>n k) 0)\<lparr>ss_iterations := Suc i + k\<rparr>)
        \<or> ((\<forall>j<100 - Suc i. unconverged ar s b A B \<sigma>1 ?\<sigma>n j)
            \<and> sigma_loop ar s b A B \<sigma>1 ?\<sigma>n (Suc i)
                = (sigma_pass ar s b A B \<sigma>1 (sigma_iter ar s b A B \<sigma>1 ?\<sigma>n (99 - Suc i)) 0)\<lparr>ss_iterations := 100\<rparr>)"
        using "1.IH"[OF refl test Suc Suc] by (simp only: stn)
      have all_Suc: "\<And>n. (\<forall>j<Suc n. unconverged ar s b A B \<sigma>1 \<sigma> j)
          \<longleftrightarrow> (\<forall>j<n. unconverged ar s b A B \<sigma>1 \<sigma> (Suc j))"
        using True by (auto simp: less_Suc_eq_0_disj)
      from IH show ?thesis
      proof
        assume "\<exists>k. k < 100 - Suc i \<and> (\<forall>j<k. unconverged ar s b A B \<sigma>1 ?\<sigma>n j)
            \<and> \<not> unconverged ar s b A B \<sigma>1 ?\<sigma>n k
            \<and> sigma_loop ar s b A B \<sigma>1 ?\<sigma>n (Suc i)
                = (sigma_pass ar s b A B \<sigma>1 (sigma_iter ar s b A B \<sigma>1 ?\<sigma>n k) 0)\<lparr>ss_iterations := Suc i + k\<rparr>"
        then obtain k where k: "k < 100 - Suc i" "\<forall>j<k. unconverged ar s b A B \<sigma>1 \<sigma> (Suc j)"
            "\<not> unconverged ar s b A B \<sigma>1 \<sigma> (Suc k)"
            "sigma_loop ar s b A B \<sigma>1 \<sigma> i
               = (sigma_pass ar s b A B \<sigma>1 (sigma_iter ar s b A B \<sigma>1 \<sigma> (Suc k)) 0)\<lparr>ss_iterations := Suc i + k\<rparr>"
          unfolding unconverged_shift sigma_iter_shift eq by blast
        have "Suc k < 100 - i" using k(1) by simp
        moreover have "\<forall>j<Suc k. unconverged ar s b A B \<sigma>1 \<sigma> j" using k(2) all_Suc by blast
        moreover have "sigma_loop ar s b A B \<sigma>1 \<sigma> i
               = (sigma_pass ar s b A B \<sigma>1 (sigma_iter ar s b A B \<sigma>1 \<sigma> (Suc k)) 0)\<lparr>ss_iterations := i + Suc k\<rparr>"
          using k(4) by simp
        ultimately show ?thesis using k(3) by blast
      next
        assume "(\<forall>j<100 - Suc i. unconverged ar s b A B \<sigma>1 ?\<sigma>n j)
            \<and> sigma_loop ar s b A B \<sigma>1 ?\<sigma>n (Suc i)
                = (sigma_pass ar s b A B \<sigma>1 (sigma_iter ar s b A B \<sigma>1 ?\<sigma>n (99 - Suc i)) 0)\<lparr>ss_iterations := 100\<rparr>"
        then have a: "\<forall>j<100 - Suc i. unconverged ar s b A B \<sigma>1 \<sigma> (Suc j)"
            "sigma_loop ar s b A B \<sigma>1 \<sigma> i
               = (sigma_pass ar s b A B \<sigma>1 (sigma_iter ar s b A B \<sigma>1 \<sigma> (Suc (99 - Suc i))) 0)\<lparr>ss_iterations := 100\<rparr>"
          unfolding unconverged_shift sigma_iter_shift eq by blast+
        have s: "Suc (100 - Suc i) = 100 - i" "Suc (99 - Suc i) = 99 - i" using Suc by simp_all
        have b1: "\<forall>j<100 - i. unconverged ar s b A B \<sigma>1 \<sigma> j"
          using a(1) all_Suc[of "100 - Suc i"] s by simp
        have b2: "sigma_loop ar s b A B \<sigma>1 \<sigma> i
               = (sigma_pass ar s b A B \<sigma>1 (sigma_iter ar s b A B \<sigma>1 \<sigma> (99 - i)) 0)\<lparr>ss_iterations := 100\<rparr>"
          using a(2) by (simp only: s)
        show ?thesis
          by (intro disjI2 conjI) (fact b1, fact b2)
      qed
    qed
  qed
qed

lemma sigma_loop_iterations_le:
  "ss_iterations (sigma_loop ar s b A B \<sigma>1 \<sigma> 0) \<le> 100"
  using sigma_loop_char[of 0 ar s b A B \<sigma>1 \<sigma>] by auto

lemma sigma_loop_cap_iff:
  "100 \<le> ss_iterations (sigma_loop ar s b A B \<sigma>1 \<sigma> 0)
     \<longleftrightarrow> (\<forall>j<100. unconverged ar s b A B \<sigma>1 \<sigma> j)"
  using sigma_loop_char[of 0 ar s b A B \<sigma>1 \<sigma>] by auto

lemma sigma_iteration_EvalError:
  "sigma_iteration ar s b A B \<sigma>1 = Inl EvalError
     \<longleftrightarrow> (\<forall>j<100. unconverged ar s b A B \<sigma>1 (ar_div ar s (ar_mul ar b A)) j)"
  unfolding sigma_iteration_def Let_def sigma_loop_cap_iff[symmetric] by simp

lemma sigma_iteration_error:
  "sigma_iteration ar s b A B \<sigma>1 = Inl e \<Longrightarrow> e = EvalError"
  by (auto simp: sigma_iteration_def Let_def split: if_splits)
section \<open>The guards of the direct solution\<close>

text \<open>
  Claim C1, as amended. \<^verbatim>\<open>direct\<close> tests its arguments in a fixed order: a NaN distance
  is a TypeError whatever the other arguments are; a NaN bearing is a TypeError when the
  distance is a number other than 0; a height other than 0 is a RangeError when the
  distance is a number other than 0 and the bearing is not NaN. (A distance of 0 returns
  before the bearing and the height are looked at, see C2.)
\<close>

theorem direct_guard_order:
  "direct this NaN initialBearing = Inl TypeError
   \<and> (distance \<noteq> NaN \<and> distance \<noteq> Fin 0
        \<longrightarrow> direct this distance NaN = Inl TypeError)
   \<and> (distance \<noteq> NaN \<and> distance \<noteq> Fin 0 \<and> initialBearing \<noteq> NaN \<and> ll_height this \<noteq> Fin 0
        \<longrightarrow> direct this distance initialBearing = Inl RangeError)"
  by (simp add: direct_def isNaN_iff js_eq_zero_iff js_ne_zero_iff)

theorem direct_guard_order_witness:
  "direct \<lparr>ll_lat = Fin 0, ll_lon = Fin 0, ll_height = Fin 5, ll_datum = None\<rparr> NaN (Fin 90)
     = Inl TypeError
   \<and> direct \<lparr>ll_lat = Fin 0, ll_lon = Fin 0, ll_height = Fin 5, ll_datum = None\<rparr> (Fin 1000) NaN
     = Inl TypeError
   \<and> direct \<lparr>ll_lat = Fin 0, ll_lon = Fin 0, ll_height = Fin 5, ll_datum = None\<rparr> (Fin 1000) (Fin 90)
     = Inl RangeError"
  using direct_guard_order [of "\<lparr>ll_lat = Fin 0, ll_lon = Fin 0, ll_height = Fin 5, ll_datum = None\<rparr>"
      "Fin 90" "Fin 1000"]
    direct_guard_order [of "\<lparr>ll_lat = Fin 0, ll_lon = Fin 0, ll_height = Fin 5, ll_datum = None\<rparr>"
      "NaN" "Fin 1000"]
  by simp

text \<open>With distance 0 the call returns normally although the height is 5 and the bearing
  is NaN: neither a RangeError nor a TypeError.\<close>

theorem direct_height_bearing_counterexample:
  "direct \<lparr>ll_lat = Fin 0, ll_lon = Fin 0, ll_height = Fin 5, ll_datum = None\<rparr> (Fin 0) NaN
     = Inr \<lparr>dr_point = \<lparr>ll_lat = Fin 0, ll_lon = Fin 0, ll_height = Fin 5, ll_datum = None\<rparr>,
            dr_finalBearing = NaN, dr_iterations = 0\<rparr>"
  by (simp add: direct_def js_eq_def)

text \<open>
  Claim C2. For every point \<open>p\<close> and every bearing (NaN and the infinities included), the
  direct solution with distance 0 returns \<open>p\<close> itself, the final bearing NaN and the
  iteration count 0.
\<close>

theorem direct_zero_distance:
  "direct p (Fin 0) bearing = Inr \<lparr>dr_point = p, dr_finalBearing = NaN, dr_iterations = 0\<rparr>"
  by (simp add: direct_def js_eq_def)

section \<open>Iterations\<close>

lemma direct_finish_error:
  "direct_finish c st = Inl e \<Longrightarrow> e = TypeError"
  by (auto simp: direct_finish_def Let_def new_LatLonEllipsoidal_def split: sum.splits if_splits)

text \<open>Past its guards, \<^verbatim>\<open>direct\<close> throws an EvalError exactly when the iteration does.\<close>

lemma direct_EvalError_iff:
  assumes "distance \<noteq> NaN" "distance \<noteq> Fin 0" "initialBearing \<noteq> NaN" "ll_height this = Fin 0"
    and "direct_ellipsoid this = Some ellipsoid"
  defines "c \<equiv> direct_consts this distance initialBearing ellipsoid"
  shows "direct this distance initialBearing = Inl EvalError
    \<longleftrightarrow> sigma_iteration exact (dc_s c) (dc_b c) (dc_A c) (dc_B c) (dc_\<sigma>1 c) = Inl EvalError"
  using assms(1-5) direct_finish_error[of c _ EvalError] sigma_iteration_error
  by (auto simp: direct_def isNaN_iff js_eq_zero_iff js_ne_zero_iff Let_def c_def split: sum.splits)

text \<open>One pass and the test of the loop in the arithmetic of the real numbers.\<close>

lemma exact_step:
  assumes "b * A \<noteq> 0"
  shows "ss_\<sigma> (sigma_pass exact (Fin s) (Fin b) (Fin A) (Fin B) (Fin \<sigma>1) (Fin x) i)
    = Fin (s / (b * A) + B * sin x * (cos (2 * \<sigma>1 + x) + B / 4
        * (cos x * (- 1 + 2 * cos (2 * \<sigma>1 + x) * cos (2 * \<sigma>1 + x))
           - B / 6 * cos (2 * \<sigma>1 + x) * (- 3 + 4 * sin x * sin x)
               * (- 3 + 4 * cos (2 * \<sigma>1 + x) * cos (2 * \<sigma>1 + x)))))"
  using assms by (simp add: sigma_pass_def delta_sigma_def exact_def Let_def minus_jsnum_def)

lemma exact_far:
  "e < d \<Longrightarrow> ar_num exact e < \<bar>ar_sub exact (Fin (c + d)) (Fin c)\<bar>"
  by (simp add: exact_def minus_jsnum_def)

lemma half_angle_bounds: "1 / 4 \<le> sin (1 / 2 :: real)" "1 / 2 \<le> cos (1 / 2 :: real)"
  "sin (1 / 2 :: real) \<le> 1" "cos (1 / 2 :: real) \<le> 1"
proof -
  have p: "2 \<le> pi" "pi < 4" by (rule pi_ge_two, rule pi_less_4)
  have "cos (pi / 3) \<le> cos (1 / 2)"
    using p by (intro cos_monotone_0_pi_le) simp_all
  then show c: "1 / 2 \<le> cos (1 / 2 :: real)" by (simp add: cos_60)
  have "sin (pi / 6) \<le> sin 1"
    using p by (intro sin_monotone_2pi_le) simp_all
  then have "1 / 2 \<le> sin (2 * (1 / 2) :: real)" by (simp add: sin_30)
  then have "1 / 2 \<le> 2 * sin (1 / 2) * cos (1 / 2 :: real)"
    by (simp only: sin_double)
  then have d: "1 / 4 \<le> sin (1 / 2) * cos (1 / 2 :: real)"
    by simp
  have s0: "0 \<le> sin (1 / 2 :: real)" using p by (intro sin_ge_zero) simp_all
  have "sin (1 / 2) * cos (1 / 2 :: real) \<le> sin (1 / 2) * 1"
    using s0 by (intro mult_left_mono) simp_all
  then show "1 / 4 \<le> sin (1 / 2 :: real)" using d by simp
  show "sin (1 / 2 :: real) \<le> 1" "cos (1 / 2 :: real) \<le> 1" by simp_all
qed

lemma delta_lower:
  fixes sn cs :: real
  assumes "1 / 4 \<le> sn" "sn \<le> 1" "1 / 2 \<le> cs" "cs \<le> 1"
  shows "1 / 10 ^ 12 < 2 / 1000 * sn * (cs + 2 / 1000 / 4
           * (cs * (- 1 + 2 * cs * cs) - 2 / 1000 / 6 * cs * (- 3 + 4 * sn * sn) * (- 3 + 4 * cs * cs)))"
proof -
  have sq: "0 \<le> cs * cs" "cs * cs \<le> 1" "0 \<le> sn * sn" "sn * sn \<le> 1"
    using assms by (simp_all add: mult_le_one)
  define x where "x = - 1 + 2 * cs * cs"
  define y where "y = (- 3 + 4 * sn * sn) * (- 3 + 4 * cs * cs)"
  have x: "\<bar>x\<bar> \<le> 1" using sq by (simp add: x_def abs_le_iff)
  have "\<bar>- 3 + 4 * sn * sn\<bar> \<le> 3" "\<bar>- 3 + 4 * cs * cs\<bar> \<le> 3"
    using sq by (simp_all add: abs_le_iff)
  then have "\<bar>- 3 + 4 * sn * sn\<bar> * \<bar>- 3 + 4 * cs * cs\<bar> \<le> 3 * 3"
    by (intro mult_mono) simp_all
  then have y: "\<bar>y\<bar> \<le> 9" by (simp add: y_def abs_mult)
  have "\<bar>cs * x\<bar> \<le> 1 * 1"
    unfolding abs_mult using assms x by (intro mult_mono) simp_all
  then have cx: "- 1 \<le> cs * x" by (simp add: abs_le_iff)
  have "\<bar>cs * y\<bar> \<le> 1 * 9"
    unfolding abs_mult using assms y by (intro mult_mono) simp_all
  then have cy: "cs * y \<le> 9" by (simp add: abs_le_iff)
  have "49 / 100 \<le> c + 2 / 1000 / 4 * (p - 2 / 1000 / 6 * q)"
    if "- 1 \<le> p" "q \<le> 9" "1 / 2 \<le> c" for p q c :: real
    using that by (simp add: field_simps)
  from this[OF cx cy assms(3)]
  have "49 / 100 \<le> cs + 2 / 1000 / 4 * (cs * x - 2 / 1000 / 6 * (cs * y))" .
  moreover have "0 < 2 / 1000 * sn" "2 / 1000 * (1 / 4) \<le> 2 / 1000 * sn" using assms(1) by simp_all
  ultimately have "2 / 1000 * (1 / 4) * (49 / 100)
      \<le> 2 / 1000 * sn * (cs + 2 / 1000 / 4 * (cs * x - 2 / 1000 / 6 * (cs * y)))"
    by (intro mult_mono) simp_all
  moreover have "2 / 1000 / 6 * (cs * y)
      = 2 / 1000 / 6 * cs * (- 3 + 4 * sn * sn) * (- 3 + 4 * cs * cs)"
    by (simp only: y_def mult.assoc)
  moreover have "(1::real) / 10 ^ 12 < 2 / 1000 * (1 / 4) * (49 / 100)" by simp
  ultimately show ?thesis by (simp only: x_def)
qed

text \<open>
  Claim C3. In every arithmetic \<open>ar\<close> (that of binary64 with an implementation's
  \<^verbatim>\<open>Math.sin\<close> and \<^verbatim>\<open>Math.cos\<close> among them) and for all values of \<open>s\<close>, \<open>b\<close>, \<open>A\<close>, \<open>B\<close> and
  \<open>\<sigma>1\<close>, the iteration of \<^verbatim>\<open>direct\<close> (lines 69 to 81) ends after \<open>k + 1 \<le> 100\<close> passes: each of
  the first \<open>k\<close> passes left \<open>|\<sigma> - \<sigma>'| > 1e-12\<close>, and pass \<open>k + 1\<close> either did not (the counter
  is then \<open>k\<close>) or was pass 100 (the counter is then 100). The iteration throws an
  EvalError if and only if each of 100 passes left \<open>|\<sigma> - \<sigma>'| > 1e-12\<close>. Every pass sets
  \<open>\<sigma> = s / (b * A) + \<Delta>\<sigma>\<close>, with \<open>\<Delta>\<sigma>\<close> computed from the sine and cosine of the previous \<open>\<sigma>\<close>
  as on line 77. (A NaN fails the test \<open>>\<close>, and ends the loop without an EvalError.)
\<close>

theorem sigma_iteration_cap:
  fixes ar :: arith and s b A B \<sigma>1 :: jsnum
  defines "\<sigma>0 \<equiv> ar_div ar s (ar_mul ar b A)"
  defines "\<sigma> \<equiv> sigma_iter ar s b A B \<sigma>1 \<sigma>0"
  defines "far \<equiv> \<lambda>j. \<bar>ar_sub ar (\<sigma> (Suc j)) (\<sigma> j)\<bar> > ar_num ar (1 / 10 ^ 12)"
  shows
  "(\<exists>k<100. (\<forall>j<k. far j) \<and> (far k \<longrightarrow> k = 99)
       \<and> sigma_loop ar s b A B \<sigma>1 \<sigma>0 0
           = (sigma_pass ar s b A B \<sigma>1 (\<sigma> k) 0)\<lparr>ss_iterations := (if far k then 100 else k)\<rparr>)
   \<and> (sigma_iteration ar s b A B \<sigma>1 = Inl EvalError \<longleftrightarrow> (\<forall>j<100. far j))
   \<and> (\<forall>n. let sin\<sigma> = ar_sin ar (\<sigma> n); cos\<sigma> = ar_cos ar (\<sigma> n);
              cos2\<sigma>\<^sub>m = ar_cos ar (ar_add ar (ar_mul ar (Fin 2) \<sigma>1) (\<sigma> n));
              add = ar_add ar; sub = ar_sub ar; mul = ar_mul ar; quo = ar_div ar
          in \<sigma> (Suc n)
             = add \<sigma>0
                 (mul (mul B sin\<sigma>)
                    (add cos2\<sigma>\<^sub>m
                       (mul (quo B (Fin 4))
                          (sub (mul cos\<sigma> (add (Fin (- 1)) (mul (mul (Fin 2) cos2\<sigma>\<^sub>m) cos2\<sigma>\<^sub>m)))
                               (mul (mul (mul (quo B (Fin 6)) cos2\<sigma>\<^sub>m)
                                       (add (Fin (- 3)) (mul (mul (Fin 4) sin\<sigma>) sin\<sigma>)))
                                    (add (Fin (- 3)) (mul (mul (Fin 4) cos2\<sigma>\<^sub>m) cos2\<sigma>\<^sub>m))))))))"
proof -
  have far: "far j = unconverged ar s b A B \<sigma>1 \<sigma>0 j" for j
    by (simp add: far_def unconverged_def \<sigma>_def)
  have 1: "\<exists>k<100. (\<forall>j<k. far j) \<and> (far k \<longrightarrow> k = 99)
       \<and> sigma_loop ar s b A B \<sigma>1 \<sigma>0 0
           = (sigma_pass ar s b A B \<sigma>1 (\<sigma> k) 0)\<lparr>ss_iterations := (if far k then 100 else k)\<rparr>"
  proof -
    from sigma_loop_char[of 0 ar s b A B \<sigma>1 \<sigma>0]
    consider k where "k < 100" "\<forall>j<k. unconverged ar s b A B \<sigma>1 \<sigma>0 j"
        "\<not> unconverged ar s b A B \<sigma>1 \<sigma>0 k"
        "sigma_loop ar s b A B \<sigma>1 \<sigma>0 0
           = (sigma_pass ar s b A B \<sigma>1 (sigma_iter ar s b A B \<sigma>1 \<sigma>0 k) 0)\<lparr>ss_iterations := k\<rparr>"
      | "\<forall>j<100. unconverged ar s b A B \<sigma>1 \<sigma>0 j"
        "sigma_loop ar s b A B \<sigma>1 \<sigma>0 0
           = (sigma_pass ar s b A B \<sigma>1 (sigma_iter ar s b A B \<sigma>1 \<sigma>0 99) 0)\<lparr>ss_iterations := 100\<rparr>"
      by auto
    then show ?thesis
    proof cases
      case 1
      then show ?thesis by (intro exI[of _ k]) (simp add: far \<sigma>_def)
    next
      case 2
      then show ?thesis by (intro exI[of _ 99]) (simp add: far \<sigma>_def)
    qed
  qed
  have 2: "sigma_iteration ar s b A B \<sigma>1 = Inl EvalError \<longleftrightarrow> (\<forall>j<100. far j)"
    unfolding far \<sigma>0_def by (rule sigma_iteration_EvalError)
  have 3: "\<forall>n. let sin\<sigma> = ar_sin ar (\<sigma> n); cos\<sigma> = ar_cos ar (\<sigma> n);
              cos2\<sigma>\<^sub>m = ar_cos ar (ar_add ar (ar_mul ar (Fin 2) \<sigma>1) (\<sigma> n));
              add = ar_add ar; sub = ar_sub ar; mul = ar_mul ar; quo = ar_div ar
          in \<sigma> (Suc n)
             = add \<sigma>0
                 (mul (mul B sin\<sigma>)
                    (add cos2\<sigma>\<^sub>m
                       (mul (quo B (Fin 4))
                          (sub (mul cos\<sigma> (add (Fin (- 1)) (mul (mul (Fin 2) cos2\<sigma>\<^sub>m) cos2\<sigma>\<^sub>m)))
                               (mul (mul (mul (quo B (Fin 6)) cos2\<sigma>\<^sub>m)
                                       (add (Fin (- 3)) (mul (mul (Fin 4) sin\<sigma>) sin\<sigma>)))
                                    (add (Fin (- 3)) (mul (mul (Fin 4) cos2\<sigma>\<^sub>m) cos2\<sigma>\<^sub>m)))))))"
    by (simp add: \<sigma>_def \<sigma>0_def sigma_pass_def delta_sigma_def Let_def)
  show ?thesis using 1 2 3 by blast
qed

theorem sigma_iteration_cap_witness:
  "ar_div exact (Fin 3181554.376) (ar_mul exact (Fin 6356752) (Fin (1001 / 1000))) = Fin (1 / 2)
   \<and> 1 \<le> ss_iterations (sigma_loop exact (Fin 3181554.376) (Fin 6356752) (Fin (1001 / 1000))
                            (Fin (2 / 1000)) (Fin 0) (Fin (1 / 2)) 0)
   \<and> ss_iterations (sigma_loop exact (Fin 3181554.376) (Fin 6356752) (Fin (1001 / 1000))
                            (Fin (2 / 1000)) (Fin 0) (Fin (1 / 2)) 0) \<le> 100"
proof -
  let ?s = "Fin 3181554.376" and ?b = "Fin 6356752" and ?A = "Fin (1001 / 1000)"
    and ?B = "Fin (2 / 1000)"
  define D :: real where "D = 2 / 1000 * sin (1 / 2) * (cos (1 / 2) + 2 / 1000 / 4
           * (cos (1 / 2) * (- 1 + 2 * cos (1 / 2) * cos (1 / 2))
              - 2 / 1000 / 6 * cos (1 / 2) * (- 3 + 4 * sin (1 / 2) * sin (1 / 2))
                  * (- 3 + 4 * cos (1 / 2) * cos (1 / 2))))"
  have D: "1 / 10 ^ 12 < D"
    unfolding D_def by (rule delta_lower) (rule half_angle_bounds)+
  have s0: "ar_div exact ?s (ar_mul exact ?b ?A) = Fin (1 / 2)"
    by (simp add: exact_def)
  have e: "(3181554.376 :: real) / (6356752 * (1001 / 1000)) = 1 / 2" "2 * 0 + (1 / 2 :: real) = 1 / 2"
    by simp_all
  have nz: "(6356752 :: real) * (1001 / 1000) \<noteq> 0" by simp
  have step: "sigma_iter exact ?s ?b ?A ?B (Fin 0) (Fin (1 / 2)) (Suc 0) = Fin (1 / 2 + D)"
    unfolding sigma_iter.simps exact_step[OF nz] e D_def ..
  have far0: "ar_num exact (1 / 10 ^ 12)
      < \<bar>ar_sub exact (sigma_iter exact ?s ?b ?A ?B (Fin 0) (Fin (1 / 2)) (Suc 0))
                       (sigma_iter exact ?s ?b ?A ?B (Fin 0) (Fin (1 / 2)) 0)\<bar>"
    unfolding step sigma_iter.simps(1) using D by (rule exact_far)
  from sigma_iteration_cap[of exact ?s ?b ?A ?B "Fin 0"]
  have "\<exists>k<100. (ar_num exact (1 / 10 ^ 12)
      < \<bar>ar_sub exact (sigma_iter exact ?s ?b ?A ?B (Fin 0) (Fin (1 / 2)) (Suc k))
                       (sigma_iter exact ?s ?b ?A ?B (Fin 0) (Fin (1 / 2)) k)\<bar> \<longrightarrow> k = 99)
     \<and> sigma_loop exact ?s ?b ?A ?B (Fin 0) (Fin (1 / 2)) 0
       = (sigma_pass exact ?s ?b ?A ?B (Fin 0) (sigma_iter exact ?s ?b ?A ?B (Fin 0) (Fin (1 / 2)) k) 0)
           \<lparr>ss_iterations := (if ar_num exact (1 / 10 ^ 12)
      < \<bar>ar_sub exact (sigma_iter exact ?s ?b ?A ?B (Fin 0) (Fin (1 / 2)) (Suc k))
                       (sigma_iter exact ?s ?b ?A ?B (Fin 0) (Fin (1 / 2)) k)\<bar> then 100 else k)\<rparr>"
    unfolding s0 by blast
  then obtain k where k: "k < 100"
    "ar_num exact (1 / 10 ^ 12)
      < \<bar>ar_sub exact (sigma_iter exact ?s ?b ?A ?B (Fin 0) (Fin (1 / 2)) (Suc k))
                       (sigma_iter exact ?s ?b ?A ?B (Fin 0) (Fin (1 / 2)) k)\<bar> \<longrightarrow> k = 99"
    and l: "sigma_loop exact ?s ?b ?A ?B (Fin 0) (Fin (1 / 2)) 0
       = (sigma_pass exact ?s ?b ?A ?B (Fin 0) (sigma_iter exact ?s ?b ?A ?B (Fin 0) (Fin (1 / 2)) k) 0)
           \<lparr>ss_iterations := (if ar_num exact (1 / 10 ^ 12)
      < \<bar>ar_sub exact (sigma_iter exact ?s ?b ?A ?B (Fin 0) (Fin (1 / 2)) (Suc k))
                       (sigma_iter exact ?s ?b ?A ?B (Fin 0) (Fin (1 / 2)) k)\<bar> then 100 else k)\<rparr>"
    by blast
  have "ss_iterations (sigma_loop exact ?s ?b ?A ?B (Fin 0) (Fin (1 / 2)) 0) = 100
      \<or> ss_iterations (sigma_loop exact ?s ?b ?A ?B (Fin 0) (Fin (1 / 2)) 0) = k"
    by (subst l, subst l) (simp del: sigma_iter.simps)
  have "k \<noteq> 0"
  proof
    assume z: "k = 0"
    from k(2)[unfolded z] far0 have "(0::nat) = 99" by blast
    then show False by simp
  qed
  with \<open>ss_iterations (sigma_loop exact ?s ?b ?A ?B (Fin 0) (Fin (1 / 2)) 0) = 100
      \<or> ss_iterations (sigma_loop exact ?s ?b ?A ?B (Fin 0) (Fin (1 / 2)) 0) = k\<close>
  have "1 \<le> ss_iterations (sigma_loop exact ?s ?b ?A ?B (Fin 0) (Fin (1 / 2)) 0)"
    "ss_iterations (sigma_loop exact ?s ?b ?A ?B (Fin 0) (Fin (1 / 2)) 0) \<le> 100"
    using k(1) by auto
  then show ?thesis using s0 by blast
qed

text \<open>In binary64, whatever \<^verbatim>\<open>Math.sin\<close> and \<^verbatim>\<open>Math.cos\<close> return: the EvalError is thrown
  exactly when the rounded difference of two successive iterates has exceeded the
  binary64 number \<open>1e-12\<close> a hundred times.\<close>

lemma sigma_iteration_binary64:
  "sigma_iteration (binary64 sin64 cos64) s b A B \<sigma>1 = Inl EvalError
     \<longleftrightarrow> (\<forall>j<100. round64 (1 / 10 ^ 12)
            < \<bar>js_sub (sigma_iter (binary64 sin64 cos64) s b A B \<sigma>1 (js_div s (js_mul b A)) (Suc j))
                      (sigma_iter (binary64 sin64 cos64) s b A B \<sigma>1 (js_div s (js_mul b A)) j)\<bar>)"
  unfolding sigma_iteration_EvalError unconverged_def by (simp add: binary64_def)

text \<open>The cap is reached in an arithmetic in which the iterate alternates between two
  values more than \<open>1e-12\<close> apart. In \<open>two_cycle\<close> (not the arithmetic of a machine) it
  alternates between 1 and 53/24.\<close>

lemma two_cycle_iter:
  "sigma_iter two_cycle (Fin 1) (Fin 1) (Fin 1) (Fin 1) (Fin 0) (Fin 1) n
     = (if even n then Fin 1 else Fin (53 / 24))"
  by (induction n)
    (simp_all add: sigma_pass_def delta_sigma_def two_cycle_def exact_def Let_def minus_jsnum_def)

lemma sigma_iteration_two_cycle:
  "sigma_iteration two_cycle (Fin 1) (Fin 1) (Fin 1) (Fin 1) (Fin 0) = Inl EvalError"
proof -
  have s0: "ar_div two_cycle (Fin 1) (ar_mul two_cycle (Fin 1) (Fin 1)) = Fin 1"
    by (simp add: two_cycle_def exact_def)
  have "unconverged two_cycle (Fin 1) (Fin 1) (Fin 1) (Fin 1) (Fin 0) (Fin 1) j" for j
    unfolding unconverged_def two_cycle_iter
    by (simp add: two_cycle_def exact_def minus_jsnum_def)
  then show ?thesis
    unfolding sigma_iteration_EvalError s0 by simp
qed

section \<open>The result of a successful direct solution\<close>

lemma new_LatLonEllipsoidal_Inr:
  "new_LatLonEllipsoidal lat lon height = Inr p \<Longrightarrow>
     lat \<noteq> NaN \<and> lon \<noteq> NaN \<and> height \<noteq> NaN
     \<and> p = \<lparr>ll_lat = wrap90 lat, ll_lon = wrap180 lon, ll_height = height, ll_datum = None\<rparr>"
  by (auto simp: new_LatLonEllipsoidal_def isNaN_iff split: if_splits)

lemma direct_finish_shape:
  assumes "direct_finish c st = Inr r"
  shows "ll_height (dr_point r) = Fin 0 \<and> ll_datum (dr_point r) = None
    \<and> (\<exists>\<beta>. dr_finalBearing r = Fin \<beta> \<and> 0 \<le> \<beta> \<and> \<beta> < 360)"
proof -
  define x where "x = dc_sinU1 c * ss_sin\<sigma> st - dc_cosU1 c * ss_cos\<sigma> st * dc_cos\<alpha>1 c"
  define \<phi>2 where "\<phi>2 = Math_atan2 (dc_sinU1 c * ss_cos\<sigma> st + dc_cosU1 c * ss_sin\<sigma> st * dc_cos\<alpha>1 c)
                 ((Fin 1 - dc_f c) * Math_sqrt (dc_sin\<alpha> c * dc_sin\<alpha> c + x * x))"
  define \<alpha>2 where "\<alpha>2 = Math_atan2 (dc_sin\<alpha> c) (- x)"
  from assms obtain lam2 dest where
    dest: "new_LatLonEllipsoidal (toDegrees \<phi>2) (toDegrees lam2) (Fin 0) = Inr dest"
    and r: "r = \<lparr>dr_point = dest, dr_finalBearing = wrap360 (toDegrees \<alpha>2),
                  dr_iterations = ss_iterations st\<rparr>"
    unfolding direct_finish_def Let_def x_def \<phi>2_def \<alpha>2_def
    by (auto split: sum.splits)
  from new_LatLonEllipsoidal_Inr[OF dest]
  have nn: "toDegrees \<phi>2 \<noteq> NaN"
    and d: "dest = \<lparr>ll_lat = wrap90 (toDegrees \<phi>2), ll_lon = wrap180 (toDegrees lam2),
                    ll_height = Fin 0, ll_datum = None\<rparr>"
    by simp_all
  have "\<phi>2 \<noteq> NaN" using nn by (rule toDegrees_not_NaN)
  then have "(Fin 1 - dc_f c) * Math_sqrt (dc_sin\<alpha> c * dc_sin\<alpha> c + x * x) \<noteq> NaN"
    unfolding \<phi>2_def by (blast dest: atan2_not_NaN)
  then have "dc_sin\<alpha> c * dc_sin\<alpha> c + x * x \<noteq> NaN"
    by (blast dest: times_not_NaN sqrt_not_NaN)
  then have "dc_sin\<alpha> c \<noteq> NaN" "x \<noteq> NaN"
    by (blast dest: plus_not_NaN times_not_NaN)+
  then have "dc_sin\<alpha> c \<noteq> NaN" "- x \<noteq> NaN"
    by (simp_all add: uminus_NaN)
  from Math_atan2_range[OF this] obtain a where a: "\<alpha>2 = Fin a" "- pi \<le> a" "a \<le> pi"
    unfolding \<alpha>2_def by (auto simp: isFinite_iff)
  have "\<bar>a * 180 / pi\<bar> \<le> 180"
    using a(2,3) pi_gt_zero by (simp add: abs_le_iff field_simps)
  then have "\<bar>360 * (a * 180 / pi)\<bar> \<le> 2 ^ 16" by (simp add: abs_mult)
  from round64_bounded[OF this] obtain v where "js_mul (Fin 360) (Fin (a * 180 / pi)) = Fin v"
    by (auto simp: js_mul_def)
  then have "\<exists>\<beta>. wrap360 (toDegrees \<alpha>2) = Fin \<beta> \<and> 0 \<le> \<beta> \<and> \<beta> < 360"
    unfolding a(1) toDegrees_Fin by (rule wrap360_finite)
  then show ?thesis using r d by simp
qed

lemma direct_success_shape:
  assumes "direct this distance initialBearing = Inr r" "distance \<noteq> Fin 0"
  shows "ll_height (dr_point r) = Fin 0 \<and> ll_datum (dr_point r) = None
    \<and> (\<exists>\<beta>. dr_finalBearing r = Fin \<beta> \<and> 0 \<le> \<beta> \<and> \<beta> < 360)"
proof -
  from assms obtain c st where "direct_finish c st = Inr r"
    by (auto simp: direct_def js_eq_zero_iff Let_def split: if_splits option.splits sum.splits)
  then show ?thesis by (rule direct_finish_shape)
qed

lemma direct_consts_airy:
  "dc_B (direct_consts (set_datum (Some airy_datum) equator_origin) (Fin 1000) (Fin 90) ellipsoids_Airy1830) = Fin 0"
  "dc_A (direct_consts (set_datum (Some airy_datum) equator_origin) (Fin 1000) (Fin 90) ellipsoids_Airy1830) = Fin 1"
  "dc_b (direct_consts (set_datum (Some airy_datum) equator_origin) (Fin 1000) (Fin 90) ellipsoids_Airy1830) = Fin 6356256.909"
  "dc_s (direct_consts (set_datum (Some airy_datum) equator_origin) (Fin 1000) (Fin 90) ellipsoids_Airy1830) = Fin 1000"
  "dc_\<sigma>1 (direct_consts (set_datum (Some airy_datum) equator_origin) (Fin 1000) (Fin 90) ellipsoids_Airy1830) = Fin 0"
  by (simp_all add: direct_consts_def equator_origin_def ellipsoids_Airy1830_def set_datum_def
        Let_def toRadians_def Math_tan_def minus_jsnum_def atan2_def)

lemma sigma_iteration_airy:
  "sigma_iteration exact (Fin 1000) (Fin 6356256.909) (Fin 1) (Fin 0) (Fin 0)
    = Inr (sigma_pass exact (Fin 1000) (Fin 6356256.909) (Fin 1) (Fin 0) (Fin 0)
      (Fin 1000 / (Fin 6356256.909 * Fin 1)) 0)"
proof -
  have "sigma_loop exact (Fin 1000) (Fin 6356256.909) (Fin 1) (Fin 0) (Fin 0)
      (Fin 1000 / (Fin 6356256.909 * Fin 1)) 0
    = sigma_pass exact (Fin 1000) (Fin 6356256.909) (Fin 1) (Fin 0) (Fin 0)
      (Fin 1000 / (Fin 6356256.909 * Fin 1)) 0"
    by (subst sigma_loop.simps)
      (simp add: sigma_pass_def delta_sigma_def exact_def Let_def minus_jsnum_def)
  moreover have "ar_div exact (Fin 1000) (ar_mul exact (Fin 6356256.909) (Fin 1))
      = Fin 1000 / (Fin 6356256.909 * Fin 1)"
    by (simp add: exact_def)
  ultimately show ?thesis
    unfolding sigma_iteration_def Let_def by (simp only: sigma_pass_sel) simp
qed

lemma direct_finish_finite:
  assumes "isFinite (dc_f c)" "isFinite (dc_sinU1 c)" "isFinite (dc_cosU1 c)"
    "isFinite (dc_sin\<alpha>1 c)" "isFinite (dc_cos\<alpha>1 c)" "isFinite (dc_sin\<alpha> c)"
    "isFinite (dc_cosSq\<alpha> c)" "isFinite (dc_lam1 c)"
    "isFinite (ss_\<sigma> st)" "isFinite (ss_sin\<sigma> st)" "isFinite (ss_cos\<sigma> st)" "isFinite (ss_cos2\<sigma>\<^sub>m st)"
  shows "\<exists>r. direct_finish c st = Inr r"
proof -
  from assms obtain f sinU1 cosU1 sin\<alpha>1 cos\<alpha>1 sin\<alpha> cosSq\<alpha> lam1 \<sigma> sin\<sigma> cos\<sigma> cos2\<sigma>m where
    "dc_f c = Fin f" "dc_sinU1 c = Fin sinU1" "dc_cosU1 c = Fin cosU1" "dc_sin\<alpha>1 c = Fin sin\<alpha>1"
    "dc_cos\<alpha>1 c = Fin cos\<alpha>1" "dc_sin\<alpha> c = Fin sin\<alpha>" "dc_cosSq\<alpha> c = Fin cosSq\<alpha>"
    "dc_lam1 c = Fin lam1" "ss_\<sigma> st = Fin \<sigma>" "ss_sin\<sigma> st = Fin sin\<sigma>" "ss_cos\<sigma> st = Fin cos\<sigma>"
    "ss_cos2\<sigma>\<^sub>m st = Fin cos2\<sigma>m"
    unfolding isFinite_iff by blast
  then show ?thesis
    by (simp add: direct_finish_def Let_def minus_jsnum_def toDegrees_def
        new_LatLonEllipsoidal_def not_less)
qed

lemma direct_consts_airy_finite:
  "isFinite (dc_f (direct_consts (set_datum (Some airy_datum) equator_origin) (Fin 1000) (Fin 90) ellipsoids_Airy1830))"
  "isFinite (dc_sinU1 (direct_consts (set_datum (Some airy_datum) equator_origin) (Fin 1000) (Fin 90) ellipsoids_Airy1830))"
  "isFinite (dc_cosU1 (direct_consts (set_datum (Some airy_datum) equator_origin) (Fin 1000) (Fin 90) ellipsoids_Airy1830))"
  "isFinite (dc_sin\<alpha>1 (direct_consts (set_datum (Some airy_datum) equator_origin) (Fin 1000) (Fin 90) ellipsoids_Airy1830))"
  "isFinite (dc_cos\<alpha>1 (direct_consts (set_datum (Some airy_datum) equator_origin) (Fin 1000) (Fin 90) ellipsoids_Airy1830))"
  "isFinite (dc_sin\<alpha> (direct_consts (set_datum (Some airy_datum) equator_origin) (Fin 1000) (Fin 90) ellipsoids_Airy1830))"
  "isFinite (dc_cosSq\<alpha> (direct_consts (set_datum (Some airy_datum) equator_origin) (Fin 1000) (Fin 90) ellipsoids_Airy1830))"
  "isFinite (dc_lam1 (direct_consts (set_datum (Some airy_datum) equator_origin) (Fin 1000) (Fin 90) ellipsoids_Airy1830))"
  by (simp_all add: direct_consts_def equator_origin_def ellipsoids_Airy1830_def set_datum_def
        Let_def toRadians_def Math_tan_def minus_jsnum_def)

lemma sigma_pass_finite:
  "b * A \<noteq> 0 \<Longrightarrow> isFinite (ss_\<sigma> (sigma_pass exact (Fin s) (Fin b) (Fin A) (Fin B) (Fin \<sigma>1) (Fin \<sigma>) i))"
  "isFinite (ss_sin\<sigma> (sigma_pass exact (Fin s) (Fin b) (Fin A) (Fin B) (Fin \<sigma>1) (Fin \<sigma>) i))"
  "isFinite (ss_cos\<sigma> (sigma_pass exact (Fin s) (Fin b) (Fin A) (Fin B) (Fin \<sigma>1) (Fin \<sigma>) i))"
  "isFinite (ss_cos2\<sigma>\<^sub>m (sigma_pass exact (Fin s) (Fin b) (Fin A) (Fin B) (Fin \<sigma>1) (Fin \<sigma>) i))"
  by (simp_all add: sigma_pass_def delta_sigma_def exact_def Let_def minus_jsnum_def)

text \<open>
  Claim C10, at an origin whose datum a caller has set (\<^verbatim>\<open>p.datum = { ellipsoid:
  ellipsoids.Airy1830 }\<close>): the direct solution for 1000 m due east along the equator
  succeeds, and its destination point has no datum, although line 92 passes
  \<^verbatim>\<open>this.datum\<close> to the constructor. (By \<open>direct_success_shape\<close> the height of the
  destination is 0 and the final bearing lies in \<open>[0, 360)\<close> for every successful call
  with a distance other than 0, and the destination never has a datum.)
\<close>

theorem direct_destination_datum:
  "map_sum id (ll_datum \<circ> dr_point)
      (direct (set_datum (Some airy_datum) equator_origin) (Fin 1000) (Fin 90)) = Inr None
   \<and> ll_datum (set_datum (Some airy_datum) equator_origin) = Some airy_datum"
proof -
  let ?p = "set_datum (Some airy_datum) equator_origin"
  let ?c = "direct_consts ?p (Fin 1000) (Fin 90) ellipsoids_Airy1830"
  let ?st = "sigma_pass exact (Fin 1000) (Fin 6356256.909) (Fin 1) (Fin 0) (Fin 0)
      (Fin 1000 / (Fin 6356256.909 * Fin 1)) 0"
  have e: "direct_ellipsoid ?p = Some ellipsoids_Airy1830"
    by (simp add: direct_ellipsoid_def set_datum_def airy_datum_def)
  have h: "ll_height ?p = Fin 0"
    by (simp add: set_datum_def equator_origin_def)
  have st: "sigma_iteration exact (dc_s ?c) (dc_b ?c) (dc_A ?c) (dc_B ?c) (dc_\<sigma>1 ?c) = Inr ?st"
    by (simp only: direct_consts_airy sigma_iteration_airy)
  have d: "direct ?p (Fin 1000) (Fin 90) = direct_finish ?c ?st"
    by (simp add: direct_def js_eq_def js_ne_def e h Let_def st)
  have "\<exists>r. direct_finish ?c ?st = Inr r"
    by (rule direct_finish_finite) (simp_all add: direct_consts_airy_finite sigma_pass_finite)
  then obtain r where r: "direct ?p (Fin 1000) (Fin 90) = Inr r"
    using d by auto
  from direct_success_shape[OF r] have "ll_datum (dr_point r) = None" by simp
  then show ?thesis using r by (simp add: set_datum_def)
qed

section \<open>Cartesian to geodetic on the polar axis\<close>

lemma nonfinite_times: "\<not> isFinite q \<Longrightarrow> \<not> isFinite (q * w)"
  by (cases q; cases w) simp_all

lemma nonfinite_sin\<beta>: "\<not> isFinite t \<Longrightarrow> t / Math_sqrt (Fin 1 + t * t) = NaN"
  by (cases t) simp_all

lemma axis_quotient_nonfinite:
  "z \<noteq> 0 \<Longrightarrow> \<not> isFinite ((b * Fin z) / (Fin a * Math_sqrt (Fin 0 * Fin 0 + Fin 0 * Fin 0)))"
  by (cases b) simp_all

text \<open>On the axis, in the arithmetic of the real numbers and for the zero \<open>+0\<close>.\<close>

lemma toLatLon_on_axis:
  assumes "z \<noteq> 0" "a \<noteq> 0"
  shows "Cartesian_toLatLon \<lparr>v_x = Fin 0, v_y = Fin 0, v_z = Fin z\<rparr>
           (Some \<lparr>ell_a = Fin a, ell_b = b, ell_f = Fin f\<rparr>)
         = Inr \<lparr>ll_lat = Fin 0, ll_lon = Fin 0, ll_height = Fin (- a), ll_datum = None\<rparr>"
proof -
  define w where "w = Fin 1 + (Fin 2 * Fin f - Fin f * Fin f) / (Fin 1 - (Fin 2 * Fin f - Fin f * Fin f)) * b
      / Math_sqrt (Math_sqrt (Fin 0 * Fin 0 + Fin 0 * Fin 0) * Math_sqrt (Fin 0 * Fin 0 + Fin 0 * Fin 0) + Fin z * Fin z)"
  define tan\<beta> where "tan\<beta> = (b * Fin z) / (Fin a * Math_sqrt (Fin 0 * Fin 0 + Fin 0 * Fin 0)) * w"
  have "\<not> isFinite tan\<beta>"
    unfolding tan\<beta>_def using axis_quotient_nonfinite[OF assms(1)] by (rule nonfinite_times)
  then have s: "tan\<beta> / Math_sqrt (Fin 1 + tan\<beta> * tan\<beta>) = NaN"
    by (rule nonfinite_sin\<beta>)
  have "Cartesian_toLatLon \<lparr>v_x = Fin 0, v_y = Fin 0, v_z = Fin z\<rparr>
           (Some \<lparr>ell_a = Fin a, ell_b = b, ell_f = Fin f\<rparr>)
      = (let sin\<beta> = tan\<beta> / Math_sqrt (Fin 1 + tan\<beta> * tan\<beta>);
            cos\<beta> = sin\<beta> / tan\<beta>;
            e2 = Fin 2 * Fin f - Fin f * Fin f;
            \<epsilon>2 = e2 / (Fin 1 - e2);
            p = Math_sqrt (Fin 0 * Fin 0 + Fin 0 * Fin 0);
            \<phi> = (if isNaN cos\<beta> then Fin 0
                 else Math_atan2 (Fin z + \<epsilon>2 * b * sin\<beta> * sin\<beta> * sin\<beta>)
                        (p - e2 * Fin a * cos\<beta> * cos\<beta> * cos\<beta>));
            lam = Math_atan2 (Fin 0) (Fin 0);
            sin\<phi> = Math_sin \<phi>; cos\<phi> = Math_cos \<phi>;
            \<nu> = Fin a / Math_sqrt (Fin 1 - e2 * sin\<phi> * sin\<phi>);
            h = p * cos\<phi> + Fin z * sin\<phi> - (Fin a * Fin a / \<nu>)
        in new_LatLonEllipsoidal (toDegrees \<phi>) (toDegrees lam) h)"
    using assms(2) unfolding Cartesian_toLatLon_def tan\<beta>_def w_def Let_def by simp
  also have "\<dots> = Inr \<lparr>ll_lat = Fin 0, ll_lon = Fin 0, ll_height = Fin (- a), ll_datum = None\<rparr>"
    using assms(2) unfolding s
    by (simp add: Let_def minus_jsnum_def atan2_def toDegrees_def new_LatLonEllipsoidal_def
        wrap90_def wrap180_def)
  finally show ?thesis .
qed

lemma WGS84_fields:
  "ellipsoids_WGS84
     = \<lparr>ell_a = Fin 6378137, ell_b = Fin 6356752.314245, ell_f = Fin (1 / 298.257223563)\<rparr>"
  by (simp add: ellipsoids_WGS84_def)

lemma toLatLon_default:
  "Cartesian_toLatLon c None = Cartesian_toLatLon c (Some ellipsoids_WGS84)"
  by (simp only: Cartesian_toLatLon_def option.case)

text \<open>
  Claim C6. The north pole of the WGS84 ellipsoid is the Cartesian point
  \<open>(0, 0, 6356752.314245)\<close>. \<^verbatim>\<open>toLatLon\<close> returns for it the latitude 0, the longitude 0 and
  the height \<open>-6378137\<close>, which is the centre of the Earth, and not the latitude 90; for the
  south pole \<open>(0, 0, -6356752.314245)\<close> it returns the same point, and not the latitude
  -90. The function has no branch for \<open>p = 0\<close>: there \<open>tan\<beta>\<close> is \<open>(b z) / (a \<sqdot> 0)\<close>, an
  infinity, \<open>sin\<beta>\<close> is \<open>\<infinity> / \<infinity>\<close>, which is NaN, and so is \<open>cos\<beta>\<close>, so that the branch
  \<^verbatim>\<open>isNaN(cos\<beta>) ? 0\<close> gives \<open>\<phi> = 0\<close>. (That branch is right on the equator, see
  \<open>toLatLon_equator\<close>, where \<open>tan\<beta>\<close> is 0 and \<open>cos\<beta>\<close> is \<open>0 / 0\<close>.)
\<close>

theorem toLatLon_pole:
  "Cartesian_toLatLon \<lparr>v_x = Fin 0, v_y = Fin 0, v_z = Fin 6356752.314245\<rparr> None
     = Inr \<lparr>ll_lat = Fin 0, ll_lon = Fin 0, ll_height = Fin (- 6378137), ll_datum = None\<rparr>
   \<and> Cartesian_toLatLon \<lparr>v_x = Fin 0, v_y = Fin 0, v_z = Fin (- 6356752.314245)\<rparr> None
     = Inr \<lparr>ll_lat = Fin 0, ll_lon = Fin 0, ll_height = Fin (- 6378137), ll_datum = None\<rparr>"
proof -
  have h: "(6356752.314245 :: real) \<noteq> 0" "(- 6356752.314245 :: real) \<noteq> 0"
    "(6378137 :: real) \<noteq> 0" by simp_all
  show ?thesis
    unfolding toLatLon_default WGS84_fields
    using toLatLon_on_axis [OF h(1) h(3)] toLatLon_on_axis [OF h(2) h(3)] by blast
qed

text \<open>On the equator \<open>z = 0\<close>, so that \<open>tan\<beta> = 0\<close>, \<open>sin\<beta> = 0\<close> and \<open>cos\<beta> = 0 / 0\<close> is NaN: the
  branch \<open>\<phi> = 0\<close> returns the point of the equator, at height 0.\<close>

lemma toLatLon_equator:
  assumes "0 < a" "f \<noteq> 1" "isFinite b"
  shows "Cartesian_toLatLon \<lparr>v_x = Fin a, v_y = Fin 0, v_z = Fin 0\<rparr>
           (Some \<lparr>ell_a = Fin a, ell_b = b, ell_f = Fin f\<rparr>)
         = Inr \<lparr>ll_lat = Fin 0, ll_lon = Fin 0, ll_height = Fin 0, ll_datum = None\<rparr>"
proof -
  from assms(3) obtain b' where b: "b = Fin b'" by (auto simp: isFinite_iff)
  have e: "1 - (2 * f - f * f) = (1 - f) * (1 - f)" by (simp add: algebra_simps)
  have n: "1 - (2 * f - f * f) \<noteq> 0" unfolding e using assms(2) by simp
  have n': "1 + (f * f - 2 * f) \<noteq> 0" using n by (simp add: algebra_simps)
  show ?thesis
    using assms(1) n n' unfolding b
    by (simp add: Cartesian_toLatLon_def Let_def minus_jsnum_def atan2_def toDegrees_def
        new_LatLonEllipsoidal_def wrap90_def wrap180_def)
qed

section \<open>The round trip in exact arithmetic\<close>

text \<open>
  In exact arithmetic the cosine of 90 degrees is 0: the Cartesian point of a pole lies on
  the axis, and the way back takes the branch \<open>\<phi> = 0\<close>. In binary64 the cosine of the
  number nearest to \<open>\<pi>/2\<close> is about \<open>6.1e-17\<close>, so that \<open>p\<close> is not 0 there: what the
  round trip returns within a tolerance (claim C5) is a property of the rounded
  computation, which exact arithmetic does not represent.
\<close>

lemma toCartesian_pole:
  assumes "f < 1" "a \<noteq> 0"
  shows "toCartesian \<lparr>ll_lat = Fin 90, ll_lon = Fin 0, ll_height = Fin 0,
           ll_datum = Some \<lparr>d_ref = r, d_ellipsoid = Some \<lparr>ell_a = Fin a, ell_b = b, ell_f = Fin f\<rparr>,
             d_transform = t\<rparr>\<rparr>
         = Inr \<lparr>v_x = Fin 0, v_y = Fin 0, v_z = Fin (a * (1 - f))\<rparr>"
proof -
  have e: "1 + (f * f - 2 * f) = (1 - f) * (1 - f)" by (simp add: algebra_simps)
  have s: "sqrt (1 + (f * f - 2 * f)) = 1 - f"
    unfolding e using assms(1) by simp
  have n: "1 - f \<noteq> 0" using assms(1) by simp
  have z: "a * (1 + (f * f - 2 * f)) / (1 - f) = a * (1 - f)"
    unfolding e using n by simp
  have p: "\<not> 1 + (f * f - 2 * f) < 0"
    unfolding e by (simp add: not_less)
  show ?thesis
    using assms p
    by (simp add: toCartesian_def Let_def toRadians_def minus_jsnum_def new_Vector3d_def s z)
qed

lemma round_trip_pole_exact:
  assumes "f < 1" "a \<noteq> 0"
  shows "(case toCartesian \<lparr>ll_lat = Fin 90, ll_lon = Fin 0, ll_height = Fin 0,
             ll_datum = Some \<lparr>d_ref = r,
               d_ellipsoid = Some \<lparr>ell_a = Fin a, ell_b = b, ell_f = Fin f\<rparr>, d_transform = t\<rparr>\<rparr> of
            Inl e \<Rightarrow> Inl e
          | Inr c \<Rightarrow> Cartesian_toLatLon c (Some \<lparr>ell_a = Fin a, ell_b = b, ell_f = Fin f\<rparr>))
         = Inr \<lparr>ll_lat = Fin 0, ll_lon = Fin 0, ll_height = Fin (- a), ll_datum = None\<rparr>"
proof -
  have "a * (1 - f) \<noteq> 0" using assms by simp
  then show ?thesis
    by (simp add: toCartesian_pole[OF assms] toLatLon_on_axis[OF _ assms(2)])
qed

section \<open>Conversion between datums\<close>

lemma convertDatum_to_WGS84:
  "convertDatum this (Some datums_WGS84) = Inl TypeError"
  unfolding convertDatum_def by (subst convertDatum_in.simps) (simp add: datums_WGS84_def)

lemma convertDatum_TypeError:
  assumes "cd_datum this \<noteq> Some datums_WGS84"
  shows "convertDatum this toDatum = Inl TypeError"
proof (cases toDatum)
  case None
  then show ?thesis unfolding convertDatum_def by (subst convertDatum_in.simps) simp
next
  case (Some td)
  show ?thesis
  proof (cases "d_ellipsoid td = None \<or> cd_datum this = None")
    case True
    then show ?thesis using Some unfolding convertDatum_def
      by (subst convertDatum_in.simps) auto
  next
    case False
    then obtain sd where sd: "cd_datum this = Some sd" "sd \<noteq> datums_WGS84"
      using assms by auto
    have td: "td \<noteq> datums_WGS84" using False by (auto simp: datums_WGS84_def)
    show ?thesis
      using Some False sd td convertDatum_to_WGS84[of this]
      unfolding convertDatum_def
      by (subst convertDatum_in.simps) simp
  qed
qed

lemma new_Cartesian_Datum_datum:
  "new_Cartesian_Datum x y z datum = Inr c \<Longrightarrow> cd_datum c \<noteq> Some datums_WGS84"
  by (auto simp: new_Cartesian_Datum_def datums_WGS84_def new_Vector3d_def
      split: if_splits option.splits sum.splits)

lemma Cartesian_Datum_set_datum_datum:
  "Cartesian_Datum_set_datum datum this = Inr c \<Longrightarrow> cd_datum c \<noteq> Some datums_WGS84"
  by (auto simp: Cartesian_Datum_set_datum_def datums_WGS84_def split: if_splits option.splits)

text \<open>The formula of \<^verbatim>\<open>applyTransform\<close> on finite numbers.\<close>

lemma applyTransform_formula:
  "applyTransform \<lparr>v_x = Fin x, v_y = Fin y, v_z = Fin z, cd_datum = d\<rparr>
      (Some [Fin tx, Fin ty, Fin tz, Fin s, Fin rx, Fin ry, Fin rz])
    = (let S = s / 10 ^ 6 + 1;
           Rx = rx / 3600 * pi / 180; Ry = ry / 3600 * pi / 180; Rz = rz / 3600 * pi / 180
       in Inr \<lparr>v_x = Fin (tx + x * S - y * Rz + z * Ry),
                v_y = Fin (ty + x * Rz + y * S - z * Rx),
                v_z = Fin (tz - x * Ry + y * Rx + z * S), cd_datum = None\<rparr>)"
  by (simp add: applyTransform_def item_def Let_def toRadians_def minus_jsnum_def
      new_Cartesian_Datum_def new_Vector3d_def)

text \<open>The three cases of the conversion, for any registry object \<open>W\<close> that has an
  ellipsoid: to \<open>W\<close> by the negated transform of the source, from \<open>W\<close> by the transform of
  the target, and between two other datums through \<open>W\<close>.\<close>

lemma convertDatum_in_to_WGS84:
  assumes "d_ellipsoid W \<noteq> None" "cd_datum this = Some sd"
  shows "convertDatum_in W this (Some W)
    = (case d_transform sd of
         None \<Rightarrow> Inl TypeError
       | Some tr \<Rightarrow> then_set_datum W (applyTransform this (Some (map uminus tr))))"
  using assms
  by (subst convertDatum_in.simps)
    (auto simp: then_set_datum_def Let_def split: option.splits sum.splits)

lemma convertDatum_in_from_WGS84:
  assumes "d_ellipsoid td \<noteq> None" "td \<noteq> W" "cd_datum this = Some W" "d_transform td \<noteq> None"
  shows "convertDatum_in W this (Some td)
    = then_set_datum td (applyTransform this (d_transform td))"
  using assms
  by (subst convertDatum_in.simps)
    (auto simp: then_set_datum_def Let_def split: option.splits sum.splits)

lemma convertDatum_in_via_WGS84:
  assumes "d_ellipsoid td \<noteq> None" "td \<noteq> W" "cd_datum this = Some sd" "sd \<noteq> W"
  shows "convertDatum_in W this (Some td)
    = (case convertDatum_in W this (Some W) of
         Inl e \<Rightarrow> Inl e
       | Inr c \<Rightarrow> then_set_datum td (applyTransform c (d_transform td)))"
  using assms
  by (subst convertDatum_in.simps)
    (auto simp: then_set_datum_def Let_def split: option.splits sum.splits)

text \<open>
  Claim C7, on the code as it is. The registry object \<^verbatim>\<open>datums.WGS84\<close> has no ellipsoid,
  so no Cartesian point can be given it as its datum, and a conversion between two datum
  objects that do have an ellipsoid and a transform (here WGS84 and OSGB36, in either
  direction) matches neither of the first two cases, calls
  \<^verbatim>\<open>this.convertDatum(datums.WGS84)\<close> and fails there with a TypeError: no transform is
  applied. (By \<open>convertDatum_TypeError\<close> this is so for every point that the constructor
  or the setter has given its datum.)
\<close>

theorem convertDatum_fails:
  "new_Cartesian_Datum (Fin 3980574.247) (Fin (- 102.127)) (Fin 4966830.065) (Some datums_WGS84)
     = Inl TypeError
   \<and> convertDatum \<lparr>v_x = Fin 3980574.247, v_y = Fin (- 102.127), v_z = Fin 4966830.065,
        cd_datum = Some wgs84_datum\<rparr> (Some osgb36_datum) = Inl TypeError
   \<and> convertDatum \<lparr>v_x = Fin 3980574.247, v_y = Fin (- 102.127), v_z = Fin 4966830.065,
        cd_datum = Some osgb36_datum\<rparr> (Some wgs84_datum) = Inl TypeError"
proof -
  have "wgs84_datum \<noteq> datums_WGS84" "osgb36_datum \<noteq> datums_WGS84"
    by (simp_all add: wgs84_datum_def osgb36_datum_def datums_WGS84_def)
  then show ?thesis
    by (simp add: convertDatum_TypeError) (simp add: new_Cartesian_Datum_def datums_WGS84_def)
qed

section \<open>Conversion between reference frames\<close>

text \<open>
  Claim C8. For every Cartesian point that has a reference frame, whatever the table of
  transform parameters is, the conversion to a reference frame (an object with an epoch)
  returns the point itself when the two frames have the same name, when the name of the
  point's frame starts with \<^verbatim>\<open>ITRF\<close> and that of the target with \<^verbatim>\<open>WGS84\<close>, and when it
  is the other way round.
\<close>

theorem convertReferenceFrame_identity:
  assumes "crf_referenceFrame c = Some oldTrf" "rf_epoch newTrf \<noteq> None"
    and "rf_name oldTrf = rf_name newTrf
         \<or> (prefix ''ITRF'' (rf_name oldTrf) \<and> prefix ''WGS84'' (rf_name newTrf))
         \<or> (prefix ''WGS84'' (rf_name oldTrf) \<and> prefix ''ITRF'' (rf_name newTrf))"
  shows "convertReferenceFrame txParams c (Some newTrf) = Inr c"
  using assms by (auto simp: convertReferenceFrame_def)

theorem convertReferenceFrame_identity_witness:
  "crf_referenceFrame \<lparr>v_x = Fin 1, v_y = Fin 2, v_z = Fin 3,
       crf_referenceFrame = Some ITRF2014, crf_epoch = None\<rparr> = Some ITRF2014
   \<and> rf_epoch WGS84g1762 \<noteq> None \<and> rf_epoch ITRF2014 \<noteq> None
   \<and> prefix ''ITRF'' (rf_name ITRF2014) \<and> prefix ''WGS84'' (rf_name WGS84g1762)
   \<and> convertReferenceFrame [] \<lparr>v_x = Fin 1, v_y = Fin 2, v_z = Fin 3,
       crf_referenceFrame = Some ITRF2014, crf_epoch = None\<rparr> (Some WGS84g1762)
     = Inr \<lparr>v_x = Fin 1, v_y = Fin 2, v_z = Fin 3,
       crf_referenceFrame = Some ITRF2014, crf_epoch = None\<rparr>
   \<and> convertReferenceFrame [] \<lparr>v_x = Fin 1, v_y = Fin 2, v_z = Fin 3,
       crf_referenceFrame = Some ITRF2014, crf_epoch = None\<rparr> (Some ITRF2014)
     = Inr \<lparr>v_x = Fin 1, v_y = Fin 2, v_z = Fin 3,
       crf_referenceFrame = Some ITRF2014, crf_epoch = None\<rparr>"
proof -
  let ?c = "\<lparr>v_x = Fin 1, v_y = Fin 2, v_z = Fin 3,
       crf_referenceFrame = Some ITRF2014, crf_epoch = None\<rparr>"
  have h: "crf_referenceFrame ?c = Some ITRF2014" "rf_epoch WGS84g1762 \<noteq> None"
    "rf_epoch ITRF2014 \<noteq> None"
    "prefix ''ITRF'' (rf_name ITRF2014)" "prefix ''WGS84'' (rf_name WGS84g1762)"
    by (simp_all add: ITRF2014_def WGS84g1762_def)
  have 1: "convertReferenceFrame [] ?c (Some WGS84g1762) = Inr ?c"
    using h by (intro convertReferenceFrame_identity) auto
  have 2: "convertReferenceFrame [] ?c (Some ITRF2014) = Inr ?c"
    using h by (intro convertReferenceFrame_identity) auto
  show ?thesis using h 1 2 by blast
qed

section \<open>Non-convergence of the inverse solution\<close>

text \<open>
  Claim C4. For every pair of points and whatever \<^verbatim>\<open>Inverse\<close> is: when \<^verbatim>\<open>Inverse\<close> throws
  the non-convergence error \<^verbatim>\<open>EvalError\<close>, each of \<^verbatim>\<open>DistanceTo\<close>, \<^verbatim>\<open>InitialBearingTo\<close> and
  \<^verbatim>\<open>FinalBearingTo\<close> returns NaN; when it throws any other exception, each of them throws
  that exception.
\<close>

theorem inverse_wrappers_catch:
  "(Inverse this point = Inl EvalError \<longrightarrow>
      DistanceTo Inverse this point = Inr NaN
      \<and> InitialBearingTo Inverse this point = Inr NaN
      \<and> FinalBearingTo Inverse this point = Inr NaN)
   \<and> (Inverse this point = Inl e \<and> e \<noteq> EvalError \<longrightarrow>
      DistanceTo Inverse this point = Inl e
      \<and> InitialBearingTo Inverse this point = Inl e
      \<and> FinalBearingTo Inverse this point = Inl e)"
  by (simp add: DistanceTo_def InitialBearingTo_def FinalBearingTo_def)

theorem inverse_wrappers_catch_witness:
  "DistanceTo (\<lambda>p q. Inl EvalError) equator_origin equator_origin = Inr NaN
   \<and> InitialBearingTo (\<lambda>p q. Inl EvalError) equator_origin equator_origin = Inr NaN
   \<and> FinalBearingTo (\<lambda>p q. Inl EvalError) equator_origin equator_origin = Inr NaN
   \<and> DistanceTo (\<lambda>p q. Inl RangeError) equator_origin equator_origin = Inl RangeError
   \<and> InitialBearingTo (\<lambda>p q. Inl RangeError) equator_origin equator_origin = Inl RangeError
   \<and> FinalBearingTo (\<lambda>p q. Inl RangeError) equator_origin equator_origin = Inl RangeError"
  using inverse_wrappers_catch [of "\<lambda>p q. Inl EvalError" equator_origin equator_origin RangeError]
    inverse_wrappers_catch [of "\<lambda>p q. Inl RangeError" equator_origin equator_origin RangeError]
  by simp

text \<open>On success the distance is rounded to the millimetre.\<close>

lemma Math_Round_example: "Math_Round (Fin 969954.1663) 3 = Fin 969954.166"
proof -
  have "\<lfloor>969954166.3 :: real\<rfloor> = 969954166" by (intro floor_unique) simp_all
  then show ?thesis by (simp add: round_half_even_def Let_def)
qed

end
